theory Spec2Isabelle
  imports Complex_Main "HOL-Library.AList"
begin

section \<open>Common types (include/Common.h)\<close>

text \<open>
  The C++ type \<^verbatim>\<open>int\<close> is modelled by \<^typ>\<open>int\<close>; the order manager only stores and
  compares order ids, and the one place where a conversion between integer types matters
  (\<^verbatim>\<open>PortfolioManager::getVaR\<close>) writes the conversion out.
  A \<^verbatim>\<open>time_point\<close> is a \<^typ>\<open>nat\<close> (ticks since the epoch).
\<close>

subsection \<open>Double arithmetic\<close>

text \<open>
  The C++ type \<^verbatim>\<open>double\<close> is the binary64 format of IEEE 754. A finite double is
  modelled by the real number it denotes: the doubles are the numbers \<open>m * 2^e\<close> with
  \<open>\<bar>m\<bar> < 2^53\<close> and \<open>e \<ge> -1074\<close>. Every arithmetic operation of the source (\<^verbatim>\<open>+\<close>,
  \<^verbatim>\<open>-\<close>, \<^verbatim>\<open>*\<close>, \<^verbatim>\<open>/\<close>, the conversion of an integer, a decimal literal) yields the
  exact result rounded to the nearest double, ties to the even one: the function \<open>fl\<close>.
  Comparisons, negation and \<^verbatim>\<open>std::max\<close> are exact.

  \<open>expo x\<close> is the exponent of the binade of \<open>x\<close>, not below that of the subnormal
  numbers; \<open>ulp x\<close> is the distance between the doubles of this binade. For a given
  number the exponent is found by comparison with two powers of 2 (lemma \<open>fl_eval\<close>
  below).

  Not modelled: a result beyond the largest finite double (the program yields an
  infinity), NaN, the sign of zero, and an evaluation in another precision or with fused
  operations.
\<close>

definition expo :: "real \<Rightarrow> int" where
  "expo x = max \<lfloor>log 2 \<bar>x\<bar>\<rfloor> (- 1022)"

definition ulp :: "real \<Rightarrow> real" where
  "ulp x = 2 powi (expo x - 52)"

definition round_even :: "real \<Rightarrow> int" where
  "round_even y =
     (let f = \<lfloor>y\<rfloor>; d = y - of_int f
      in if d < 1 / 2 then f else if 1 / 2 < d then f + 1 else if even f then f else f + 1)"

definition fl :: "real \<Rightarrow> real" where
  "fl x = of_int (round_even (x / ulp x)) * ulp x"

definition isDouble :: "real \<Rightarrow> bool" where
  "isDouble d = (\<exists>m e. d = of_int m * 2 powi e \<and> \<bar>m\<bar> < 2 ^ 53 \<and> - 1074 \<le> e)"

subsection \<open>Orders and positions\<close>

datatype OrderType = MARKET | LIMIT | STOP | STOP_LIMIT

datatype OrderSide = BUY | SELL

datatype OrderStatus = PENDING | SUBMITTED | FILLED | CANCELLED | REJECTED

record Order =
  orderId :: int
  symbol :: string
  type :: OrderType
  side :: OrderSide
  quantity :: real
  price :: real
  stopPrice :: real
  status :: OrderStatus
  timestamp :: nat

text \<open>
  \<^verbatim>\<open>Order() : orderId(0), quantity(0.0), price(0.0), stopPrice(0.0), status(PENDING) {}\<close>

  The constructor leaves the members \<^verbatim>\<open>type\<close> and \<^verbatim>\<open>side\<close> uninitialised. Every
  function modelled here assigns both right after the declaration \<^verbatim>\<open>Order order;\<close>
  and before any read, so the model takes the two assigned values as arguments.
\<close>

definition Order_ctor :: "OrderType \<Rightarrow> OrderSide \<Rightarrow> Order" where
  "Order_ctor ty sd =
     \<lparr>orderId = 0, symbol = [], type = ty, side = sd, quantity = 0, price = 0,
      stopPrice = 0, status = PENDING, timestamp = 0\<rparr>"

text \<open>
  \<^verbatim>\<open>struct Position\<close>. Its members \<^verbatim>\<open>symbol\<close> and \<^verbatim>\<open>quantity\<close> carry a suffix here,
  since the fields of \<^verbatim>\<open>Order\<close> have these names. The struct has no constructor:
  \<^verbatim>\<open>Position()\<close> is the value with the empty symbol and zeros.
\<close>

record Position =
  symbol_p :: string
  quantity_p :: real
  averagePrice :: real
  marketValue :: real
  unrealizedPnL :: real
  realizedPnL :: real

definition Position_ctor :: Position where
  "Position_ctor =
     \<lparr>symbol_p = [], quantity_p = 0, averagePrice = 0, marketValue = 0, unrealizedPnL = 0,
      realizedPnL = 0\<rparr>"

section \<open>The trading client (include/TradingClient.h, src/TradingClient.cpp)\<close>

text \<open>
  The order manager holds a handle \<^verbatim>\<open>client_\<close> and calls three of its methods. The
  handle is modelled as the three methods over a client state \<open>'c\<close>, each returning its
  result and the client's next state. The client does not call back into the order
  manager during a call.
\<close>

record 'c TradingClient =
  c_placeOrder :: "Order \<Rightarrow> 'c \<Rightarrow> int \<times> 'c"
  c_cancelOrder :: "int \<Rightarrow> 'c \<Rightarrow> bool \<times> 'c"
  c_modifyOrder :: "int \<Rightarrow> Order \<Rightarrow> 'c \<Rightarrow> bool \<times> 'c"

text \<open>
  \<^verbatim>\<open>TradingClient::Impl\<close>, the implementation in the repository: the member
  \<^verbatim>\<open>connected_\<close> and the function-local \<^verbatim>\<open>static int nextOrderId = 1000\<close> of
  \<^verbatim>\<open>placeOrder\<close>. The static counter is shared by all clients of a process; it is a
  field here, and every state below has one client. (The increment overflows the C++
  \<^verbatim>\<open>int\<close> only after more than \<open>2^31 - 1001\<close> placements; the model counts in
  \<^typ>\<open>int\<close>.)
\<close>

record Impl =
  connected :: bool
  nextOrderId :: int

definition Impl_ctor :: Impl where
  "Impl_ctor = \<lparr>connected = False, nextOrderId = 1000\<rparr>"

definition Impl_connect :: "Impl \<Rightarrow> bool \<times> Impl" where
  "Impl_connect c = (True, c\<lparr>connected := True\<rparr>)"

definition Impl_disconnect :: "Impl \<Rightarrow> Impl" where
  "Impl_disconnect c = (if connected c then c\<lparr>connected := False\<rparr> else c)"

definition Impl_placeOrder :: "Order \<Rightarrow> Impl \<Rightarrow> int \<times> Impl" where
  "Impl_placeOrder order c =
     (if \<not> connected c then (- 1, c)
      else let oid = nextOrderId c + 1
           in (oid, c\<lparr>nextOrderId := oid\<rparr>))"

definition Impl_cancelOrder :: "int \<Rightarrow> Impl \<Rightarrow> bool \<times> Impl" where
  "Impl_cancelOrder oid c = (if \<not> connected c then (False, c) else (True, c))"

definition Impl_modifyOrder :: "int \<Rightarrow> Order \<Rightarrow> Impl \<Rightarrow> bool \<times> Impl" where
  "Impl_modifyOrder oid newOrder c = (if \<not> connected c then (False, c) else (True, c))"

definition Impl_client :: "Impl TradingClient" where
  "Impl_client =
     \<lparr>c_placeOrder = Impl_placeOrder, c_cancelOrder = Impl_cancelOrder,
      c_modifyOrder = Impl_modifyOrder\<rparr>"

section \<open>The order manager (include/OrderManager.h, src/OrderManager.cpp)\<close>

text \<open>
  The members of \<^verbatim>\<open>OrderManager\<close>. The book \<^verbatim>\<open>orders_\<close> is an
  \<^verbatim>\<open>unordered_map<int, Order>\<close>, here a map. The logger is left out: its calls change
  nothing that the manager reads. The field \<open>events\<close> is not a member: it records, in
  program order, when a call acquires and releases \<^verbatim>\<open>ordersMutex_\<close>, touches the book
  and calls the client.
\<close>

datatype event = Acquire | Release | BookAccess | ClientCall

record 'c OrderManager =
  client :: 'c
  orders :: "int \<rightharpoonup> Order"
  maxPositionSize :: real
  maxDailyLoss :: real
  dailyPnL :: real
  totalTrades :: int
  winningTrades :: int
  events :: "event list"

definition OrderManager_ctor :: "'c \<Rightarrow> 'c OrderManager" where
  "OrderManager_ctor c =
     \<lparr>client = c, orders = Map.empty, maxPositionSize = 10000, maxDailyLoss = 1000,
      dailyPnL = 0, totalTrades = 0, winningTrades = 0, events = []\<rparr>"

definition emit :: "event list \<Rightarrow> 'c OrderManager \<Rightarrow> 'c OrderManager" where
  "emit es s = s\<lparr>events := events s @ es\<rparr>"

definition checkRiskLimits :: "'c OrderManager \<Rightarrow> Order \<Rightarrow> bool" where
  "checkRiskLimits s order =
     (let orderValue = fl (quantity order * price order)
      in if orderValue > maxPositionSize s then False
         else if dailyPnL s < - maxDailyLoss s then False
         else True)"

definition validateOrder :: "'c OrderManager \<Rightarrow> Order \<Rightarrow> bool" where
  "validateOrder s order =
     (if symbol order = [] then False
      else if quantity order \<le> 0 then False
      else if type order = LIMIT \<and> price order \<le> 0 then False
      else if type order = STOP \<and> stopPrice order \<le> 0 then False
      else if type order = STOP_LIMIT \<and> (price order \<le> 0 \<or> stopPrice order \<le> 0) then False
      else checkRiskLimits s order)"

text \<open>
  The tail shared by the four placement functions, as each of them has it:
  \<^verbatim>\<open>int orderId = client_->placeOrder(order);
  if (orderId > 0) { order.orderId = orderId;
    std::lock_guard<std::mutex> lock(ordersMutex_); orders_[orderId] = order; }
  return orderId;\<close>
\<close>

definition submit :: "'c TradingClient \<Rightarrow> Order \<Rightarrow> 'c OrderManager \<Rightarrow> int \<times> 'c OrderManager" where
  "submit V order s =
     (let (oid, c') = c_placeOrder V order (client s);
          s1 = emit [ClientCall] (s\<lparr>client := c'\<rparr>)
      in if oid > 0
         then (oid,
               emit [Release]
                 ((emit [Acquire, BookAccess] s1)
                    \<lparr>orders := (orders s1)(oid \<mapsto> order\<lparr>orderId := oid\<rparr>)\<rparr>))
         else (oid, s1))"

text \<open>
  The local \<^verbatim>\<open>order\<close> of each placement function after its assignments, for
  instance in \<^verbatim>\<open>placeLimitOrder\<close>:
  \<^verbatim>\<open>Order order; order.symbol = symbol; order.type = OrderType::LIMIT; order.side = side;
  order.quantity = quantity; order.price = price;
  order.timestamp = std::chrono::system_clock::now();\<close>
  The clock's value is the argument \<open>now\<close>.
\<close>

definition marketOrder :: "string \<Rightarrow> OrderSide \<Rightarrow> real \<Rightarrow> nat \<Rightarrow> Order" where
  "marketOrder symb sd qty now =
     (Order_ctor MARKET sd)\<lparr>symbol := symb, quantity := qty, timestamp := now\<rparr>"

definition limitOrder :: "string \<Rightarrow> OrderSide \<Rightarrow> real \<Rightarrow> real \<Rightarrow> nat \<Rightarrow> Order" where
  "limitOrder symb sd qty prc now =
     (Order_ctor LIMIT sd)\<lparr>symbol := symb, quantity := qty, price := prc, timestamp := now\<rparr>"

definition stopOrder :: "string \<Rightarrow> OrderSide \<Rightarrow> real \<Rightarrow> real \<Rightarrow> nat \<Rightarrow> Order" where
  "stopOrder symb sd qty stp now =
     (Order_ctor STOP sd)\<lparr>symbol := symb, quantity := qty, stopPrice := stp, timestamp := now\<rparr>"

definition stopLimitOrder :: "string \<Rightarrow> OrderSide \<Rightarrow> real \<Rightarrow> real \<Rightarrow> real \<Rightarrow> nat \<Rightarrow> Order" where
  "stopLimitOrder symb sd qty limitPrice stp now =
     (Order_ctor STOP_LIMIT sd)
       \<lparr>symbol := symb, quantity := qty, price := limitPrice, stopPrice := stp,
        timestamp := now\<rparr>"

definition placeMarketOrder ::
  "'c TradingClient \<Rightarrow> string \<Rightarrow> OrderSide \<Rightarrow> real \<Rightarrow> nat \<Rightarrow> 'c OrderManager
     \<Rightarrow> int \<times> 'c OrderManager" where
  "placeMarketOrder V symb sd qty now s =
     (let order = marketOrder symb sd qty now
      in if \<not> validateOrder s order then (- 1, s) else submit V order s)"

definition placeLimitOrder ::
  "'c TradingClient \<Rightarrow> string \<Rightarrow> OrderSide \<Rightarrow> real \<Rightarrow> real \<Rightarrow> nat \<Rightarrow> 'c OrderManager
     \<Rightarrow> int \<times> 'c OrderManager" where
  "placeLimitOrder V symb sd qty prc now s =
     (let order = limitOrder symb sd qty prc now
      in if \<not> validateOrder s order then (- 1, s) else submit V order s)"

definition placeStopOrder ::
  "'c TradingClient \<Rightarrow> string \<Rightarrow> OrderSide \<Rightarrow> real \<Rightarrow> real \<Rightarrow> nat \<Rightarrow> 'c OrderManager
     \<Rightarrow> int \<times> 'c OrderManager" where
  "placeStopOrder V symb sd qty stp now s =
     (let order = stopOrder symb sd qty stp now
      in if \<not> validateOrder s order then (- 1, s) else submit V order s)"

definition placeStopLimitOrder ::
  "'c TradingClient \<Rightarrow> string \<Rightarrow> OrderSide \<Rightarrow> real \<Rightarrow> real \<Rightarrow> real \<Rightarrow> nat \<Rightarrow> 'c OrderManager
     \<Rightarrow> int \<times> 'c OrderManager" where
  "placeStopLimitOrder V symb sd qty limitPrice stp now s =
     (let order = stopLimitOrder symb sd qty limitPrice stp now
      in if \<not> validateOrder s order then (- 1, s) else submit V order s)"

definition cancelOrder :: "'c TradingClient \<Rightarrow> int \<Rightarrow> 'c OrderManager \<Rightarrow> bool \<times> 'c OrderManager" where
  "cancelOrder V oid s =
     (let s1 = emit [Acquire, BookAccess] s
      in case orders s1 oid of
           None \<Rightarrow> (False, emit [Release] s1)
         | Some found \<Rightarrow>
             let (result, c') = c_cancelOrder V oid (client s1);
                 s2 = emit [ClientCall] (s1\<lparr>client := c'\<rparr>)
             in if result
                then (True,
                      emit [BookAccess, Release]
                        (s2\<lparr>orders := (orders s2)(oid \<mapsto> found\<lparr>status := CANCELLED\<rparr>)\<rparr>))
                else (False, emit [Release] s2))"

definition modifyOrder ::
  "'c TradingClient \<Rightarrow> int \<Rightarrow> Order \<Rightarrow> 'c OrderManager \<Rightarrow> bool \<times> 'c OrderManager" where
  "modifyOrder V oid newOrder s =
     (let s1 = emit [Acquire, BookAccess] s
      in case orders s1 oid of
           None \<Rightarrow> (False, emit [Release] s1)
         | Some found \<Rightarrow>
             if \<not> validateOrder s1 newOrder then (False, emit [Release] s1)
             else
               let (result, c') = c_modifyOrder V oid newOrder (client s1);
                   s2 = emit [ClientCall] (s1\<lparr>client := c'\<rparr>)
               in if result
                  then (True,
                        emit [BookAccess, Release]
                          (s2\<lparr>orders := (orders s2)(oid \<mapsto> newOrder\<lparr>orderId := oid\<rparr>)\<rparr>))
                  else (False, emit [Release] s2))"

definition updateOrderStatus :: "int \<Rightarrow> OrderStatus \<Rightarrow> 'c OrderManager \<Rightarrow> 'c OrderManager" where
  "updateOrderStatus oid st s =
     (let s1 = emit [Acquire, BookAccess] s
      in case orders s1 oid of
           None \<Rightarrow> emit [Release] s1
         | Some found \<Rightarrow>
             let s2 = emit [BookAccess]
                        (s1\<lparr>orders := (orders s1)(oid \<mapsto> found\<lparr>status := st\<rparr>)\<rparr>);
                 s3 = (if st = FILLED then s2\<lparr>totalTrades := totalTrades s2 + 1\<rparr> else s2)
             in emit [Release] s3)"

definition setMaxPositionSize :: "real \<Rightarrow> 'c OrderManager \<Rightarrow> 'c OrderManager" where
  "setMaxPositionSize maxSize s = s\<lparr>maxPositionSize := maxSize\<rparr>"

definition setMaxDailyLoss :: "real \<Rightarrow> 'c OrderManager \<Rightarrow> 'c OrderManager" where
  "setMaxDailyLoss maxLoss s = s\<lparr>maxDailyLoss := maxLoss\<rparr>"

definition getOrder :: "int \<Rightarrow> 'c OrderManager \<Rightarrow> Order option \<times> 'c OrderManager" where
  "getOrder oid s = (orders s oid, emit [Acquire, BookAccess, Release] s)"

text \<open>
  (\<^verbatim>\<open>getOrder\<close> returns \<^verbatim>\<open>Order()\<close> for an id that is not in the book; the model
  returns \<open>None\<close> there.)

  The calls that change the order manager, and the state after one call and after a
  list of calls. \<^verbatim>\<open>updateOrderStatus\<close> is private and has no caller in the
  repository; it is the entry for the client's status notifications.
\<close>

datatype call =
    PlaceMarketOrder string OrderSide real nat
  | PlaceLimitOrder string OrderSide real real nat
  | PlaceStopOrder string OrderSide real real nat
  | PlaceStopLimitOrder string OrderSide real real real nat
  | CancelOrder int
  | ModifyOrder int Order
  | UpdateOrderStatus int OrderStatus
  | SetMaxPositionSize real
  | SetMaxDailyLoss real

fun step :: "'c TradingClient \<Rightarrow> call \<Rightarrow> 'c OrderManager \<Rightarrow> 'c OrderManager" where
  "step V (PlaceMarketOrder symb sd qty now) s = snd (placeMarketOrder V symb sd qty now s)"
| "step V (PlaceLimitOrder symb sd qty prc now) s = snd (placeLimitOrder V symb sd qty prc now s)"
| "step V (PlaceStopOrder symb sd qty stp now) s = snd (placeStopOrder V symb sd qty stp now s)"
| "step V (PlaceStopLimitOrder symb sd qty prc stp now) s =
     snd (placeStopLimitOrder V symb sd qty prc stp now s)"
| "step V (CancelOrder oid) s = snd (cancelOrder V oid s)"
| "step V (ModifyOrder oid newOrder) s = snd (modifyOrder V oid newOrder s)"
| "step V (UpdateOrderStatus oid st) s = updateOrderStatus oid st s"
| "step V (SetMaxPositionSize maxSize) s = setMaxPositionSize maxSize s"
| "step V (SetMaxDailyLoss maxLoss) s = setMaxDailyLoss maxLoss s"

fun run :: "'c TradingClient \<Rightarrow> call list \<Rightarrow> 'c OrderManager \<Rightarrow> 'c OrderManager" where
  "run V [] s = s"
| "run V (c # cs) s = run V cs (step V c s)"

text \<open>The status stored under an id, if any.\<close>

definition statusOf :: "'c OrderManager \<Rightarrow> int \<Rightarrow> OrderStatus option" where
  "statusOf s oid = map_option status (orders s oid)"

text \<open>
  The three scans copy orders of the book into a vector, in the unspecified order of the
  \<^verbatim>\<open>unordered_map\<close>. The model returns the set of the copied orders.
\<close>

definition getAllOrders :: "'c OrderManager \<Rightarrow> Order set \<times> 'c OrderManager" where
  "getAllOrders s = (ran (orders s), emit [Acquire, BookAccess, Release] s)"

definition getOrdersBySymbol :: "string \<Rightarrow> 'c OrderManager \<Rightarrow> Order set \<times> 'c OrderManager" where
  "getOrdersBySymbol symb s =
     ({found \<in> ran (orders s). symbol found = symb}, emit [Acquire, BookAccess, Release] s)"

definition getOrdersByStatus ::
  "OrderStatus \<Rightarrow> 'c OrderManager \<Rightarrow> Order set \<times> 'c OrderManager" where
  "getOrdersByStatus st s =
     ({found \<in> ran (orders s). status found = st}, emit [Acquire, BookAccess, Release] s)"

text \<open>
  The events of one call: what the state after the call has recorded beyond the state
  before it.
\<close>

definition newEvents :: "'c OrderManager \<Rightarrow> 'c OrderManager \<Rightarrow> event list" where
  "newEvents s s' = drop (length (events s)) (events s')"

text \<open>
  Two properties of a list of events, read from a moment at which the lock is held or
  not (\<open>held\<close>). \<open>bookUnderLock\<close>: the lock is acquired only when free and released
  only when held, every access to the book happens while it is held, and it is free at
  the end. \<open>noCallUnderLock\<close>: no call of the client happens while the lock is held.
\<close>

fun bookUnderLock :: "bool \<Rightarrow> event list \<Rightarrow> bool" where
  "bookUnderLock held [] = (\<not> held)"
| "bookUnderLock held (Acquire # es) = (\<not> held \<and> bookUnderLock True es)"
| "bookUnderLock held (Release # es) = (held \<and> bookUnderLock False es)"
| "bookUnderLock held (BookAccess # es) = (held \<and> bookUnderLock held es)"
| "bookUnderLock held (ClientCall # es) = bookUnderLock held es"

fun noCallUnderLock :: "bool \<Rightarrow> event list \<Rightarrow> bool" where
  "noCallUnderLock held [] = True"
| "noCallUnderLock held (Acquire # es) = noCallUnderLock True es"
| "noCallUnderLock held (Release # es) = noCallUnderLock False es"
| "noCallUnderLock held (BookAccess # es) = noCallUnderLock held es"
| "noCallUnderLock held (ClientCall # es) = (\<not> held \<and> noCallUnderLock held es)"

fun isPlacement :: "call \<Rightarrow> bool" where
  "isPlacement (PlaceMarketOrder symb sd qty now) = True"
| "isPlacement (PlaceLimitOrder symb sd qty prc now) = True"
| "isPlacement (PlaceStopOrder symb sd qty stp now) = True"
| "isPlacement (PlaceStopLimitOrder symb sd qty prc stp now) = True"
| "isPlacement c = False"

text \<open>
  Two states for the examples: a new order manager on a client that has connected, and
  the same after a limit order (buy 10 of X at 50) has been placed, which the client
  numbers 1001.
\<close>

definition connectedManager :: "Impl OrderManager" where
  "connectedManager = OrderManager_ctor (snd (Impl_connect Impl_ctor))"

definition oneOrderManager :: "Impl OrderManager" where
  "oneOrderManager = snd (placeLimitOrder Impl_client ''X'' BUY 10 50 7 connectedManager)"

text \<open>
  The transitions of an order's status that the specification allows, written from the
  specification's words (not from the source):
  \<^verbatim>\<open>pending -> submitted -> {filled | cancelled | rejected}\<close>.
\<close>

fun specTransition :: "OrderStatus \<Rightarrow> OrderStatus \<Rightarrow> bool" where
  "specTransition PENDING SUBMITTED = True"
| "specTransition SUBMITTED FILLED = True"
| "specTransition SUBMITTED CANCELLED = True"
| "specTransition SUBMITTED REJECTED = True"
| "specTransition a b = False"

section \<open>The portfolio manager (include/PortfolioManager.h, src/PortfolioManager.cpp)\<close>

text \<open>
  The members of \<^verbatim>\<open>PortfolioManager\<close>: the position book \<^verbatim>\<open>positions_\<close>, an
  \<^verbatim>\<open>unordered_map<std::string, Position>\<close>, here a list of pairs with distinct keys
  whose order stands for the map's unspecified iteration order; \<^verbatim>\<open>positionsMutex_\<close>,
  true while it is locked; \<^verbatim>\<open>std::vector<double> dailyReturns_\<close>, oldest value first;
  and the two values that the constructor sets to \<open>100000.0\<close>. The portfolio manager
  never calls its client. The field \<open>pevents\<close> is not a member: it records the lock and
  book events as \<open>events\<close> does for the order manager.
\<close>

record PortfolioManager =
  positions :: "(string \<times> Position) list"
  positionsMutex :: bool
  dailyReturns :: "real list"
  initialPortfolioValue :: real
  maxPortfolioValue :: real
  pevents :: "event list"

definition PortfolioManager_ctor :: PortfolioManager where
  "PortfolioManager_ctor =
     \<lparr>positions = [], positionsMutex = False, dailyReturns = [],
      initialPortfolioValue = 100000, maxPortfolioValue = 100000, pevents = []\<rparr>"

text \<open>
  \<^verbatim>\<open>std::lock_guard<std::mutex> lock(positionsMutex_);\<close> and the end of its scope.
  Locking a \<^verbatim>\<open>std::mutex\<close> that the calling thread already owns is undefined (the
  thread waits for itself); the model has no result there.
\<close>

definition lockPositions :: "PortfolioManager \<Rightarrow> PortfolioManager option" where
  "lockPositions pm =
     (if positionsMutex pm then None
      else Some (pm\<lparr>positionsMutex := True, pevents := pevents pm @ [Acquire]\<rparr>))"

definition unlockPositions :: "PortfolioManager \<Rightarrow> PortfolioManager" where
  "unlockPositions pm = pm\<lparr>positionsMutex := False, pevents := pevents pm @ [Release]\<rparr>"

definition touchPositions :: "PortfolioManager \<Rightarrow> PortfolioManager" where
  "touchPositions pm = pm\<lparr>pevents := pevents pm @ [BookAccess]\<rparr>"

definition newPEvents :: "PortfolioManager \<Rightarrow> PortfolioManager \<Rightarrow> event list" where
  "newPEvents pm pm' = drop (length (pevents pm)) (pevents pm')"

definition updatePosition :: "Position \<Rightarrow> PortfolioManager \<Rightarrow> PortfolioManager option" where
  "updatePosition position pm =
     (case lockPositions pm of
        None \<Rightarrow> None
      | Some pm1 \<Rightarrow>
          Some (unlockPositions (touchPositions
            (pm1\<lparr>positions := AList.update (symbol_p position) position (positions pm1)\<rparr>))))"

definition getPosition :: "string \<Rightarrow> PortfolioManager \<Rightarrow> (Position \<times> PortfolioManager) option" where
  "getPosition symb pm =
     (case lockPositions pm of
        None \<Rightarrow> None
      | Some pm1 \<Rightarrow>
          Some (case map_of (positions pm1) symb of
                  Some found \<Rightarrow> found
                | None \<Rightarrow> Position_ctor,
                unlockPositions (touchPositions pm1)))"

definition getAllPositions :: "PortfolioManager \<Rightarrow> (Position list \<times> PortfolioManager) option" where
  "getAllPositions pm =
     (case lockPositions pm of
        None \<Rightarrow> None
      | Some pm1 \<Rightarrow> Some (map snd (positions pm1), unlockPositions (touchPositions pm1)))"

definition getTotalPortfolioValue :: "PortfolioManager \<Rightarrow> (real \<times> PortfolioManager) option" where
  "getTotalPortfolioValue pm =
     (case lockPositions pm of
        None \<Rightarrow> None
      | Some pm1 \<Rightarrow>
          Some (foldl (\<lambda>totalValue pair. fl (totalValue + marketValue (snd pair))) 0 (positions pm1),
                unlockPositions (touchPositions pm1)))"

definition getTotalUnrealizedPnL :: "PortfolioManager \<Rightarrow> (real \<times> PortfolioManager) option" where
  "getTotalUnrealizedPnL pm =
     (case lockPositions pm of
        None \<Rightarrow> None
      | Some pm1 \<Rightarrow>
          Some (foldl (\<lambda>total pair. fl (total + unrealizedPnL (snd pair))) 0 (positions pm1),
                unlockPositions (touchPositions pm1)))"

definition getTotalRealizedPnL :: "PortfolioManager \<Rightarrow> (real \<times> PortfolioManager) option" where
  "getTotalRealizedPnL pm =
     (case lockPositions pm of
        None \<Rightarrow> None
      | Some pm1 \<Rightarrow>
          Some (foldl (\<lambda>total pair. fl (total + realizedPnL (snd pair))) 0 (positions pm1),
                unlockPositions (touchPositions pm1)))"

text \<open>
  \<^verbatim>\<open>getAssetAllocation\<close> locks \<^verbatim>\<open>positionsMutex_\<close> and, holding it, calls
  \<^verbatim>\<open>getTotalPortfolioValue\<close>, which locks it again:
  \<^verbatim>\<open>std::lock_guard<std::mutex> lock(positionsMutex_);
  std::unordered_map<std::string, double> allocation;
  double totalValue = getTotalPortfolioValue();
  if (totalValue == 0.0) return allocation;
  for (const auto& pair : positions_) { ... allocation[pair.first] = weight; }\<close>
\<close>

definition getAssetAllocation ::
  "PortfolioManager \<Rightarrow> ((string \<times> real) list \<times> PortfolioManager) option" where
  "getAssetAllocation pm =
     (case lockPositions pm of
        None \<Rightarrow> None
      | Some pm1 \<Rightarrow>
          (case getTotalPortfolioValue pm1 of
             None \<Rightarrow> None
           | Some (totalValue, pm2) \<Rightarrow>
               if totalValue = 0 then Some ([], unlockPositions pm2)
               else Some (map (\<lambda>pair. (fst pair, fl (marketValue (snd pair) / totalValue)))
                            (positions pm2),
                          unlockPositions (touchPositions pm2))))"

text \<open>
  \<^verbatim>\<open>dailyReturns_.push_back(returnValue);
  if (dailyReturns_.size() > 252) { dailyReturns_.erase(dailyReturns_.begin()); }\<close>
\<close>

definition recordDailyReturn :: "real \<Rightarrow> PortfolioManager \<Rightarrow> PortfolioManager" where
  "recordDailyReturn returnValue pm =
     (let pushed = dailyReturns pm @ [returnValue]
      in pm\<lparr>dailyReturns := (if length pushed > 252 then tl pushed else pushed)\<rparr>)"

text \<open>A caller recording one return after the other, the first of the list first.\<close>

fun recordAll :: "real list \<Rightarrow> PortfolioManager \<Rightarrow> PortfolioManager" where
  "recordAll [] pm = pm"
| "recordAll (r # rs) pm = recordAll rs (recordDailyReturn r pm)"

definition getDailyReturns :: "PortfolioManager \<Rightarrow> real list" where
  "getDailyReturns pm = dailyReturns pm"

text \<open>
  The loop of \<^verbatim>\<open>getMaxDrawdown\<close> over the remaining returns, with the values of the
  locals \<^verbatim>\<open>peak\<close> and \<^verbatim>\<open>maxDrawdown\<close>:
  \<^verbatim>\<open>peak = std::max(peak, peak * (1.0 + dailyReturn));
  double drawdown = (peak - peak * (1.0 + dailyReturn)) / peak;
  maxDrawdown = std::max(maxDrawdown, drawdown);\<close>
\<close>

fun drawdownLoop :: "real list \<Rightarrow> real \<Rightarrow> real \<Rightarrow> real" where
  "drawdownLoop [] peak maxDrawdown = maxDrawdown"
| "drawdownLoop (dailyReturn # rest) peak maxDrawdown =
     (let peak' = max peak (fl (peak * fl (1 + dailyReturn)));
          drawdown = fl (fl (peak' - fl (peak' * fl (1 + dailyReturn))) / peak')
      in drawdownLoop rest peak' (max maxDrawdown drawdown))"

definition getMaxDrawdown :: "PortfolioManager \<Rightarrow> real" where
  "getMaxDrawdown pm =
     (if dailyReturns pm = [] then 0
      else drawdownLoop (dailyReturns pm) (initialPortfolioValue pm) 0)"

text \<open>
  The index that \<^verbatim>\<open>getVaR\<close> reads, for a confidence level and \<open>n\<close> sorted returns:
  \<^verbatim>\<open>int index = static_cast<int>((1.0 - confidenceLevel) * sortedReturns.size());
  if (index >= sortedReturns.size()) index = sortedReturns.size() - 1;
  ... sortedReturns[index]\<close>

  The size is converted to \<^verbatim>\<open>double\<close> for the product. The cast truncates towards
  zero and is undefined outside the range of a 32-bit
  \<^verbatim>\<open>int\<close>. The comparison and the subscript convert \<^verbatim>\<open>index\<close> to the unsigned 64-bit
  \<^verbatim>\<open>size_t\<close>, so a negative index compares as a large one; the assignment converts
  \<open>n - 1\<close> back to \<^verbatim>\<open>int\<close>. A subscript at or beyond \<open>n\<close> is undefined. The result is
  \<open>None\<close> where the C++ is undefined.
\<close>

definition truncate :: "real \<Rightarrow> int" where
  "truncate x = (if x < 0 then \<lceil>x\<rceil> else \<lfloor>x\<rfloor>)"

definition to_size_t :: "int \<Rightarrow> int" where
  "to_size_t i = i mod 2 ^ 64"

definition to_int32 :: "int \<Rightarrow> int" where
  "to_int32 i = (i + 2 ^ 31) mod 2 ^ 32 - 2 ^ 31"

definition getVaR_index :: "real \<Rightarrow> nat \<Rightarrow> nat option" where
  "getVaR_index confidenceLevel n =
     (let t = truncate (fl (fl (1 - confidenceLevel) * fl (real n)))
      in if t < - (2 ^ 31) \<or> 2 ^ 31 \<le> t then None
         else let index = (if to_size_t t \<ge> int n then to_int32 (int n - 1) else t)
              in if to_size_t index < int n then Some (nat (to_size_t index)) else None)"

definition getVaR :: "real \<Rightarrow> PortfolioManager \<Rightarrow> real option" where
  "getVaR confidenceLevel pm =
     (if dailyReturns pm = [] then Some 0
      else let sortedReturns = sort (dailyReturns pm)
           in case getVaR_index confidenceLevel (length sortedReturns) of
                None \<Rightarrow> None
              | Some i \<Rightarrow> Some (- (sortedReturns ! i)))"

section \<open>Properties of the double arithmetic\<close>

text \<open>
  What the proofs below use: a double is rounded to itself; rounding does not cross a
  double (\<open>fl_lower\<close>, \<open>fl_upper\<close>) nor zero; a rounded value is a double.
\<close>

lemma ulp_pos [simp]: "0 < ulp x"
  by (simp add: ulp_def)

lemma ulp_nonneg [simp]: "0 \<le> ulp x"
  using ulp_pos [of x] by (rule less_imp_le)

lemma round_even_of_int [simp]: "round_even (of_int k) = k"
  by (simp add: round_even_def)

lemma round_even_0 [simp]: "round_even 0 = 0"
  using round_even_of_int [of 0] by simp

lemma round_even_ge: "of_int k \<le> y \<Longrightarrow> k \<le> round_even y"
proof -
  assume "of_int k \<le> y"
  then have "k \<le> \<lfloor>y\<rfloor>" by (simp add: le_floor_iff)
  then show ?thesis by (auto simp: round_even_def Let_def)
qed

lemma round_even_le: "y \<le> of_int k \<Longrightarrow> round_even y \<le> k"
proof -
  assume a: "y \<le> of_int k"
  show ?thesis
  proof (cases "y = of_int k")
    case True
    then show ?thesis by simp
  next
    case False
    with a have "y < of_int k" by simp
    then have "\<lfloor>y\<rfloor> < k" by (simp add: floor_less_iff)
    then show ?thesis by (auto simp: round_even_def Let_def)
  qed
qed

lemma two_powr_int: "(2::real) powr real_of_int k = 2 powi k"
  by (rule powr_real_of_int') simp_all

lemma floor_log2_bounds:
  assumes "0 < x"
  shows "2 powi \<lfloor>log 2 x\<rfloor> \<le> x" and "x < 2 powi (\<lfloor>log 2 x\<rfloor> + 1)"
proof -
  have "2 powr real_of_int \<lfloor>log 2 x\<rfloor> \<le> x \<and> x < 2 powr (real_of_int \<lfloor>log 2 x\<rfloor> + 1)"
    using floor_log_eq_powr_iff [of x 2 "\<lfloor>log 2 x\<rfloor>"] assms by simp
  moreover have "real_of_int \<lfloor>log 2 x\<rfloor> + 1 = real_of_int (\<lfloor>log 2 x\<rfloor> + 1)" by simp
  ultimately show "2 powi \<lfloor>log 2 x\<rfloor> \<le> x" and "x < 2 powi (\<lfloor>log 2 x\<rfloor> + 1)"
    by (simp_all only: two_powr_int)
qed

lemma floor_log2_eq:
  assumes "2 powi k \<le> x" and "x < 2 powi (k + 1)"
  shows "\<lfloor>log 2 x\<rfloor> = k"
proof -
  have "0 < (2 :: real) powi k" by simp
  then have pos: "0 < x" using assms(1) by linarith
  have "real_of_int k + 1 = real_of_int (k + 1)" by simp
  then have "2 powr real_of_int k \<le> x \<and> x < 2 powr (real_of_int k + 1)"
    using assms by (simp only: two_powr_int)
  then show ?thesis using floor_log_eq_powr_iff [of x 2 k] pos by simp
qed

lemma expo_ge [simp]: "- 1022 \<le> expo x"
  by (simp add: expo_def)

lemma expo_upper: "x \<noteq> 0 \<Longrightarrow> \<bar>x\<bar> < 2 powi (expo x + 1)"
proof -
  assume "x \<noteq> 0"
  then have pos: "0 < \<bar>x\<bar>" by simp
  have "\<bar>x\<bar> < 2 powi (\<lfloor>log 2 \<bar>x\<bar>\<rfloor> + 1)" using floor_log2_bounds(2) [OF pos] .
  also have "\<dots> \<le> 2 powi (expo x + 1)"
    by (rule power_int_increasing) (simp_all add: expo_def)
  finally show ?thesis .
qed

lemma expo_lower: "x \<noteq> 0 \<Longrightarrow> - 1022 < expo x \<Longrightarrow> 2 powi (expo x) \<le> \<bar>x\<bar>"
proof -
  assume "x \<noteq> 0" and big: "- 1022 < expo x"
  then have pos: "0 < \<bar>x\<bar>" by simp
  from big have "expo x = \<lfloor>log 2 \<bar>x\<bar>\<rfloor>" by (simp add: expo_def max_def split: if_splits)
  then show ?thesis using floor_log2_bounds(1) [OF pos] by simp
qed

lemma expo_mono: "x \<noteq> 0 \<Longrightarrow> \<bar>x\<bar> \<le> \<bar>y\<bar> \<Longrightarrow> expo x \<le> expo y"
proof -
  assume "x \<noteq> 0" and le: "\<bar>x\<bar> \<le> \<bar>y\<bar>"
  then have pos: "0 < \<bar>x\<bar>" by simp
  have "log 2 \<bar>x\<bar> \<le> log 2 \<bar>y\<bar>" using pos le by simp
  then have "\<lfloor>log 2 \<bar>x\<bar>\<rfloor> \<le> \<lfloor>log 2 \<bar>y\<bar>\<rfloor>" by (rule floor_mono)
  then show ?thesis by (simp add: expo_def)
qed

lemma expo_eq:
  assumes "2 powi k \<le> \<bar>x\<bar>" and "\<bar>x\<bar> < 2 powi (k + 1)" and "- 1022 \<le> k"
  shows "expo x = k"
  using floor_log2_eq [OF assms(1,2)] assms(3) by (simp add: expo_def)


lemma two_powi_split: "(2::real) powi a = 2 powi (a - b) * 2 powi b"
  by (simp flip: power_int_add)

lemma two_powi_nonneg_int: "0 \<le> j \<Longrightarrow> (2::real) powi j = of_int (2 ^ nat j)"
  by (simp add: power_int_def)

lemma two_powi_less_imp: "(2::real) powi a < 2 powi b \<Longrightarrow> a < b"
proof (rule ccontr)
  assume lt: "(2::real) powi a < 2 powi b" and "\<not> a < b"
  then have "b \<le> a" by simp
  then have "(2::real) powi b \<le> 2 powi a" by (rule power_int_increasing) simp
  with lt show False by simp
qed

lemma on_grid:
  assumes "isDouble d"
  shows "\<exists>k. d = of_int k * ulp d"
proof (cases "d = 0")
  case True
  then show ?thesis by (intro exI [of _ 0]) simp
next
  case False
  from assms obtain m e where d: "d = of_int m * 2 powi e" and m: "\<bar>m\<bar> < 2 ^ 53"
    and e: "- 1074 \<le> e"
    by (auto simp: isDouble_def)
  have le: "expo d - 52 \<le> e"
  proof (cases "- 1022 < expo d")
    case True
    have "2 powi (expo d) \<le> \<bar>d\<bar>" using expo_lower [OF False True] .
    also have "\<bar>d\<bar> = \<bar>of_int m\<bar> * 2 powi e" by (simp add: d abs_mult)
    also have "\<dots> < 2 ^ 53 * 2 powi e"
    proof -
      have "\<bar>real_of_int m\<bar> < 2 ^ 53" using m by (metis of_int_abs of_int_less_numeral_power_cancel_iff)
      then show ?thesis by simp
    qed
    also have "\<dots> = 2 powi (53 + e)" by (simp add: power_int_add)
    finally have "2 powi (expo d) < (2::real) powi (53 + e)" .
    then have "expo d < 53 + e" by (rule two_powi_less_imp)
    then show ?thesis by simp
  next
    case False
    then have "expo d = - 1022" using expo_ge [of d] by linarith
    then show ?thesis using e by simp
  qed
  define j where "j = e - (expo d - 52)"
  have j: "0 \<le> j" using le by (simp add: j_def)
  have "2 powi e = 2 powi j * ulp d"
    unfolding ulp_def j_def by (rule two_powi_split)
  then have "d = of_int (m * 2 ^ nat j) * ulp d"
    by (simp add: d two_powi_nonneg_int [OF j])
  then show ?thesis by blast
qed

lemma fl_fixed: "isDouble d \<Longrightarrow> fl d = d"
proof -
  assume "isDouble d"
  then obtain k where k: "d = of_int k * ulp d" using on_grid by blast
  have "d / ulp d = of_int k"
    using k ulp_pos [of d] by (metis less_irrefl nonzero_eq_divide_eq)
  then show ?thesis using k by (simp add: fl_def)
qed

lemma fl_nonneg: "0 \<le> x \<Longrightarrow> 0 \<le> fl x"
proof -
  assume "0 \<le> x"
  then have "of_int 0 \<le> x / ulp x" by simp
  then have "0 \<le> round_even (x / ulp x)" by (rule round_even_ge)
  then show ?thesis by (simp add: fl_def)
qed

lemma fl_nonpos: "x \<le> 0 \<Longrightarrow> fl x \<le> 0"
proof -
  assume "x \<le> 0"
  then have "x / ulp x \<le> of_int 0" by (simp add: divide_le_0_iff)
  then have "round_even (x / ulp x) \<le> 0" by (rule round_even_le)
  then show ?thesis by (simp add: fl_def mult_le_0_iff)
qed

lemma binade_low: "(2::real) powi (expo x) = of_int (2 ^ 52) * ulp x"
  unfolding ulp_def using two_powi_split [of "expo x" "expo x - 52"] by simp

lemma binade_high: "(2::real) powi (expo x + 1) = of_int (2 ^ 53) * ulp x"
  unfolding ulp_def using two_powi_split [of "expo x + 1" "expo x - 52"] by simp

lemma fl_ge_grid: "of_int k * ulp x \<le> x \<Longrightarrow> of_int k * ulp x \<le> fl x"
proof -
  assume "of_int k * ulp x \<le> x"
  then have "of_int k \<le> x / ulp x" by (simp add: pos_le_divide_eq)
  then have "k \<le> round_even (x / ulp x)" by (rule round_even_ge)
  then show ?thesis by (simp add: fl_def)
qed

lemma fl_le_grid: "x \<le> of_int k * ulp x \<Longrightarrow> fl x \<le> of_int k * ulp x"
proof -
  assume "x \<le> of_int k * ulp x"
  then have "x / ulp x \<le> of_int k" by (simp add: pos_divide_le_eq)
  then have "round_even (x / ulp x) \<le> k" by (rule round_even_le)
  then show ?thesis by (simp add: fl_def)
qed

lemma fl_lower:
  assumes "isDouble d" and "0 < d" and "d \<le> x"
  shows "d \<le> fl x"
proof -
  have x: "0 < x" "x \<noteq> 0" and dn: "d \<noteq> 0" using assms by simp_all
  have mono: "expo d \<le> expo x" using expo_mono [OF dn, of x] assms by simp
  show ?thesis
  proof (cases "expo d = expo x")
    case True
    then have u: "ulp d = ulp x" by (simp add: ulp_def)
    from on_grid [OF assms(1)] obtain k where "d = of_int k * ulp x" using u by auto
    then show ?thesis using fl_ge_grid [of k x] assms(3) by simp
  next
    case False
    with mono have lt: "expo d < expo x" by simp
    then have big: "- 1022 < expo x" using expo_ge [of d] by linarith
    have "d < 2 powi (expo d + 1)" using expo_upper [OF dn] assms(2) by simp
    also have "\<dots> \<le> 2 powi (expo x)"
      by (rule power_int_increasing) (use lt in simp_all)
    finally have d_lt: "d < 2 powi (expo x)" .
    have "2 powi (expo x) \<le> x" using expo_lower [OF x(2) big] x(1) by simp
    then have "2 powi (expo x) \<le> fl x"
      unfolding binade_low by (rule fl_ge_grid)
    then show ?thesis using d_lt by simp
  qed
qed

lemma fl_upper:
  assumes "isDouble d" and "0 < d" and "x \<le> d"
  shows "fl x \<le> d"
proof (cases "x \<le> 0")
  case True
  then show ?thesis using fl_nonpos [of x] assms(2) by simp
next
  case False
  then have x: "0 < x" "x \<noteq> 0" by simp_all
  have dn: "d \<noteq> 0" using assms(2) by simp
  have mono: "expo x \<le> expo d" using expo_mono [OF x(2), of d] assms x by simp
  show ?thesis
  proof (cases "expo d = expo x")
    case True
    then have u: "ulp d = ulp x" by (simp add: ulp_def)
    from on_grid [OF assms(1)] obtain k where "d = of_int k * ulp x" using u by auto
    then show ?thesis using fl_le_grid [of x k] assms(3) by simp
  next
    case False
    with mono have lt: "expo x < expo d" by simp
    then have big: "- 1022 < expo d" using expo_ge [of x] by linarith
    have "x \<le> 2 powi (expo x + 1)" using expo_upper [OF x(2)] x(1) by simp
    then have "fl x \<le> 2 powi (expo x + 1)"
      unfolding binade_high by (rule fl_le_grid)
    also have "\<dots> \<le> 2 powi (expo d)"
      by (rule power_int_increasing) (use lt in simp_all)
    also have "\<dots> \<le> d" using expo_lower [OF dn big] assms(2) by simp
    finally show ?thesis .
  qed
qed


lemma isDouble_of_int: "\<bar>k\<bar> < 2 ^ 53 \<Longrightarrow> isDouble (of_int k)"
  unfolding isDouble_def by (intro exI [of _ k] exI [of _ 0]) simp

lemma isDouble_of_nat: "n < 2 ^ 53 \<Longrightarrow> isDouble (real n)"
  using isDouble_of_int [of "int n"] by simp

lemma isDouble_numeral: "(numeral n :: int) < 2 ^ 53 \<Longrightarrow> isDouble (numeral n)"
  using isDouble_of_int [of "numeral n"] by simp

lemma isDouble_0 [simp]: "isDouble 0"
  using isDouble_of_int [of 0] by simp

lemma isDouble_1 [simp]: "isDouble 1"
  using isDouble_of_int [of 1] by simp

lemma isDouble_fl [simp]: "isDouble (fl x)"
proof (cases "x = 0")
  case True
  then show ?thesis by (simp add: fl_def)
next
  case False
  define m where "m = round_even (x / ulp x)"
  have flx: "fl x = of_int m * ulp x" by (simp add: fl_def m_def)
  have "\<bar>x\<bar> < of_int (2 ^ 53) * ulp x"
    using expo_upper [OF False] by (simp only: binade_high)
  then have up: "x \<le> of_int (2 ^ 53) * ulp x" and lo: "of_int (- (2 ^ 53)) * ulp x \<le> x"
    by simp_all
  have "fl x \<le> of_int (2 ^ 53) * ulp x" using up by (rule fl_le_grid)
  then have m_up: "m \<le> 2 ^ 53"
    unfolding flx using ulp_pos [of x] by (simp only: mult_le_cancel_right_pos of_int_le_iff)
  have "of_int (- (2 ^ 53)) * ulp x \<le> fl x" using lo by (rule fl_ge_grid)
  then have m_lo: "- (2 ^ 53) \<le> m"
    unfolding flx using ulp_pos [of x] by (simp only: mult_le_cancel_right_pos of_int_le_iff)
  have e: "- 1074 \<le> expo x - 52" using expo_ge [of x] by linarith
  show ?thesis
  proof (cases "\<bar>m\<bar> < 2 ^ 53")
    case True
    then show ?thesis
      unfolding isDouble_def flx ulp_def using e by blast
  next
    case False
    with m_up m_lo have "m = 2 ^ 53 \<or> m = - (2 ^ 53)" by linarith
    then obtain h :: int where h: "fl x = of_int h * 2 powi (expo x - 51)" "\<bar>h\<bar> < 2 ^ 53"
    proof
      assume "m = 2 ^ 53"
      then have "fl x = of_int (2 ^ 52) * 2 powi (expo x - 51)"
        unfolding flx ulp_def using two_powi_split [of "expo x - 51" "expo x - 52"] by simp
      then show ?thesis by (rule that) simp
    next
      assume "m = - (2 ^ 53)"
      then have "fl x = of_int (- (2 ^ 52)) * 2 powi (expo x - 51)"
        unfolding flx ulp_def using two_powi_split [of "expo x - 51" "expo x - 52"] by simp
      then show ?thesis by (rule that) simp
    qed
    moreover have "- 1074 \<le> expo x - 51" using e by linarith
    ultimately show ?thesis unfolding isDouble_def by blast
  qed
qed

lemma fl_idem [simp]: "fl (fl x) = fl x"
  by (rule fl_fixed) simp

lemma fl_of_nat: "n < 2 ^ 53 \<Longrightarrow> fl (real n) = real n"
  by (rule fl_fixed) (rule isDouble_of_nat)

lemma fl_numeral [simp]: "(numeral n :: int) < 2 ^ 53 \<Longrightarrow> fl (numeral n) = numeral n"
  by (rule fl_fixed) (rule isDouble_numeral)

lemma fl_0 [simp]: "fl 0 = 0"
  by (rule fl_fixed) simp

lemma fl_1 [simp]: "fl 1 = 1"
  by (rule fl_fixed) simp

lemma fl_eval:
  assumes "2 powi k \<le> \<bar>x\<bar>" and "\<bar>x\<bar> < 2 powi (k + 1)" and "- 1022 \<le> k"
  shows "fl x = of_int (round_even (x / 2 powi (k - 52))) * 2 powi (k - 52)"
  using expo_eq [OF assms] by (simp add: fl_def ulp_def)

text \<open>Decimal literals and products of the examples, rounded.\<close>

lemma fl_half [simp]: "fl (1 / 2) = 1 / 2"
  by (subst fl_eval [of "- 1"]) (simp_all add: round_even_def)

section \<open>Properties of the daily return series\<close>

lemma recordDailyReturn_initial [simp]:
  "initialPortfolioValue (recordDailyReturn r pm) = initialPortfolioValue pm"
  by (simp add: recordDailyReturn_def Let_def)

lemma recordAll_initial [simp]:
  "initialPortfolioValue (recordAll xs pm) = initialPortfolioValue pm"
  by (induction xs arbitrary: pm) simp_all

lemma recordDailyReturn_window:
  "dailyReturns (recordDailyReturn r pm) =
     (if length (dailyReturns pm) \<ge> 252 then tl (dailyReturns pm @ [r])
      else dailyReturns pm @ [r])"
  by (simp add: recordDailyReturn_def Let_def)

text \<open>
  Starting from a series within the cap, recording \<open>xs\<close> leaves the last 252 values of
  the old series followed by \<open>xs\<close>.
\<close>

lemma recordAll_window:
  "length (dailyReturns pm) \<le> 252 \<Longrightarrow>
   dailyReturns (recordAll xs pm) =
     drop (length (dailyReturns pm) + length xs - 252) (dailyReturns pm @ xs)"
proof (induction xs arbitrary: pm)
  case Nil
  then show ?case by simp
next
  case (Cons r rs)
  let ?ds = "dailyReturns pm"
  show ?case
  proof (cases "length ?ds = 252")
    case True
    then have ne: "?ds \<noteq> []" by auto
    have d: "dailyReturns (recordDailyReturn r pm) = tl ?ds @ [r]"
      using True ne by (simp add: recordDailyReturn_window)
    have len: "length (dailyReturns (recordDailyReturn r pm)) = 252"
      using True ne by (simp add: d)
    have "dailyReturns (recordAll (r # rs) pm) = drop (length rs) ((tl ?ds @ [r]) @ rs)"
      using Cons.IH [of "recordDailyReturn r pm"] len d by simp
    also have "(tl ?ds @ [r]) @ rs = drop 1 (?ds @ r # rs)"
      using ne by (cases ?ds) simp_all
    also have "drop (length rs) (drop 1 (?ds @ r # rs)) =
                 drop (length ?ds + length (r # rs) - 252) (?ds @ r # rs)"
      using True by simp
    finally show ?thesis .
  next
    case False
    with Cons.prems have lt: "length ?ds < 252" by simp
    have d: "dailyReturns (recordDailyReturn r pm) = ?ds @ [r]"
      using lt by (simp add: recordDailyReturn_window)
    have "dailyReturns (recordAll (r # rs) pm) =
            drop (length (?ds @ [r]) + length rs - 252) ((?ds @ [r]) @ rs)"
      using Cons.IH [of "recordDailyReturn r pm"] lt d by simp
    then show ?thesis by simp
  qed
qed

lemma recordAll_ctor:
  "dailyReturns (recordAll xs PortfolioManager_ctor) = drop (length xs - 252) xs"
  using recordAll_window [of PortfolioManager_ctor xs]
  by (simp add: PortfolioManager_ctor_def)

lemma recordAll_ctor_length:
  "length (dailyReturns (recordAll xs PortfolioManager_ctor)) \<le> 252"
  by (simp add: recordAll_ctor)

text \<open>
  Claim C7. After any sequence \<open>xs\<close> of calls of \<^verbatim>\<open>recordDailyReturn\<close> on a new
  portfolio manager, the stored series holds at most 252 values: the last 252 values of
  \<open>xs\<close> (all of \<open>xs\<close> when it is shorter), in the order in which they were recorded.
  After 300 calls these are the values 49 to 300, the first 48 having been evicted.
\<close>

theorem C7_return_window:
  "length (dailyReturns (recordAll xs PortfolioManager_ctor)) \<le> 252 \<and>
   dailyReturns (recordAll xs PortfolioManager_ctor) = drop (length xs - 252) xs \<and>
   (length xs = 300 \<longrightarrow>
      dailyReturns (recordAll xs PortfolioManager_ctor) = drop 48 xs \<and>
      length (dailyReturns (recordAll xs PortfolioManager_ctor)) = 252)"
  by (simp add: recordAll_ctor)

theorem C7_return_window_witness:
  "length (map real [0..<300]) = 300 \<and>
   dailyReturns (recordAll (map real [0..<300]) PortfolioManager_ctor) =
     drop 48 (map real [0..<300]) \<and>
   length (dailyReturns (recordAll (map real [0..<300]) PortfolioManager_ctor)) = 252"
  using C7_return_window [of "map real [0..<300]"] by simp

section \<open>Properties of the drawdown\<close>

text \<open>
  While no return is negative the peak grows with every step and stays a positive
  double, the value compared with it is not below it, and the drawdown of the step is
  not positive: the maximum stays zero.
\<close>

lemma drawdownLoop_no_loss:
  assumes "\<forall>r\<in>set rs. 0 \<le> r" and "0 < peak" and "isDouble peak"
  shows "drawdownLoop rs peak 0 = 0"
  using assms
proof (induction rs arbitrary: peak)
  case Nil
  then show ?case by simp
next
  case (Cons r rs)
  define f where "f = fl (1 + r)"
  define g where "g = fl (peak * f)"
  have r: "0 \<le> r" using Cons.prems(1) by simp
  have f1: "1 \<le> f" unfolding f_def by (rule fl_lower) (use r in simp_all)
  have "peak \<le> peak * f" using f1 Cons.prems(2) by simp
  then have pg: "peak \<le> g" unfolding g_def by (rule fl_lower [OF Cons.prems(3,2)])
  then have mx: "max peak g = g" by simp
  have g_pos: "0 < g" using pg Cons.prems(2) by simp
  have g_dbl: "isDouble g" by (simp add: g_def)
  have "g \<le> g * f" using f1 g_pos by simp
  then have "g \<le> fl (g * f)" by (rule fl_lower [OF g_dbl g_pos])
  then have "fl (g - fl (g * f)) \<le> 0" by (intro fl_nonpos) simp
  then have "fl (g - fl (g * f)) / g \<le> 0" using g_pos by (simp add: divide_le_0_iff)
  then have "fl (fl (g - fl (g * f)) / g) \<le> 0" by (rule fl_nonpos)
  then have dd: "max 0 (fl (fl (g - fl (g * f)) / g)) = 0" by simp
  have "drawdownLoop rs g 0 = 0"
    by (rule Cons.IH) (use Cons.prems(1) g_pos g_dbl in simp_all)
  then show ?case
    by (simp add: Let_def f_def [symmetric] g_def [symmetric] mx dd)
qed

lemma drawdownLoop_nonneg: "0 \<le> m \<Longrightarrow> 0 \<le> drawdownLoop rs peak m"
proof (induction rs arbitrary: peak m)
  case Nil
  then show ?case by simp
next
  case (Cons r rs)
  show ?case by (simp add: Let_def) (rule Cons.IH, use Cons.prems in simp)
qed

lemma initialPortfolioValue_ctor:
  "0 < initialPortfolioValue (recordAll xs PortfolioManager_ctor)"
  "isDouble (initialPortfolioValue (recordAll xs PortfolioManager_ctor))"
  by (simp_all add: PortfolioManager_ctor_def isDouble_numeral)

text \<open>
  Claim C3, as stated, fails: after the single recorded return \<open>- 1/2\<close> the peak stays at
  100000 and the drawdown is \<open>(100000 - 50000) / 100000 = 1/2\<close>, not zero. Every
  operation of this computation is exact in doubles.
\<close>

theorem C3_drawdown_counterexample:
  "getMaxDrawdown (recordAll [- (1 / 2)] PortfolioManager_ctor) = 1 / 2 \<and>
   getMaxDrawdown (recordAll [- (1 / 2)] PortfolioManager_ctor) \<noteq> 0"
  by (simp add: getMaxDrawdown_def PortfolioManager_ctor_def recordDailyReturn_def Let_def)

text \<open>
  Claim C3, amended. For every sequence of recorded daily returns, \<^verbatim>\<open>getMaxDrawdown\<close>
  returns zero when no stored return is negative, and never returns a negative value.
  It does not always return zero: the running peak is updated before the drawdown is
  computed against the same updated peak, but the value subtracted from that peak is
  the peak times \<open>1 + r\<close>, which for a negative return \<open>r\<close> can lie below it (the
  stored return \<open>- 1/2\<close> gives \<open>1/2\<close>). (Where the peak overflows in the program it is
  infinite and the drawdown of the step is NaN, which \<^verbatim>\<open>std::max\<close> does not take: the
  result stays zero while no return is negative, and is never negative.)
\<close>

theorem C3_drawdown_zero_without_loss:
  "((\<forall>r\<in>set (dailyReturns (recordAll xs PortfolioManager_ctor)). 0 \<le> r) \<longrightarrow>
      getMaxDrawdown (recordAll xs PortfolioManager_ctor) = 0) \<and>
   0 \<le> getMaxDrawdown (recordAll xs PortfolioManager_ctor)"
  using drawdownLoop_no_loss [OF _ initialPortfolioValue_ctor, of _ xs]
        drawdownLoop_nonneg [of 0]
  by (simp add: getMaxDrawdown_def)

text \<open>
  The witness: after the returns \<open>1/2\<close>, \<open>0\<close> and \<open>1\<close>, none of them negative, the
  result is zero.
\<close>

theorem C3_drawdown_zero_without_loss_witness:
  "dailyReturns (recordAll [1 / 2, 0, 1] PortfolioManager_ctor) = [1 / 2, 0, 1] \<and>
   getMaxDrawdown (recordAll [1 / 2, 0, 1] PortfolioManager_ctor) = 0"
  using C3_drawdown_zero_without_loss [of "[1 / 2, 0, 1]"]
  by (simp add: recordDailyReturn_def PortfolioManager_ctor_def)

section \<open>Properties of the value at risk\<close>

lemma to_size_t_id: "0 \<le> i \<Longrightarrow> i < 2 ^ 31 \<Longrightarrow> to_size_t i = i"
  by (simp add: to_size_t_def)

lemma to_int32_id: "0 \<le> i \<Longrightarrow> i < 2 ^ 31 \<Longrightarrow> to_int32 i = i"
  by (simp add: to_int32_def)

text \<open>
  For a confidence level in \<open>[0, 1]\<close> and \<open>n\<close> below \<open>2^31\<close>, the rounded difference
  lies in \<open>[0, 1]\<close> and the rounded product in \<open>[0, n]\<close>, since 0, 1 and \<open>n\<close> are
  doubles.
\<close>

lemma rank_bounds:
  assumes "0 \<le> c" and "c \<le> 1" and "int n < 2 ^ 31"
  shows "fl (real n) = real n"
    and "0 \<le> \<lfloor>fl (fl (1 - c) * real n)\<rfloor>"
    and "\<lfloor>fl (fl (1 - c) * real n)\<rfloor> \<le> int n"
proof -
  have "int n < 2 ^ 53" by (rule less_trans [OF assms(3)]) simp
  then have n53: "n < 2 ^ 53" by simp
  show "fl (real n) = real n" using n53 by (rule fl_of_nat)
  have f0: "0 \<le> fl (1 - c)" by (rule fl_nonneg) (use assms in simp)
  have f1: "fl (1 - c) \<le> 1" by (rule fl_upper) (use assms in simp_all)
  have "0 \<le> fl (1 - c) * real n" using f0 by simp
  then have "0 \<le> fl (fl (1 - c) * real n)" by (rule fl_nonneg)
  then show "0 \<le> \<lfloor>fl (fl (1 - c) * real n)\<rfloor>" by simp
  have up: "fl (fl (1 - c) * real n) \<le> real n"
  proof (cases "n = 0")
    case True
    then show ?thesis by simp
  next
    case False
    have "fl (1 - c) * real n \<le> 1 * real n" using f1 by (intro mult_right_mono) simp_all
    then have le: "fl (1 - c) * real n \<le> real n" by simp
    have pos: "0 < real n" using False by simp
    show ?thesis by (rule fl_upper [OF isDouble_of_nat [OF n53] pos le])
  qed
  then have "\<lfloor>fl (fl (1 - c) * real n)\<rfloor> \<le> \<lfloor>real_of_int (int n)\<rfloor>"
    by (intro floor_mono) simp
  then show "\<lfloor>fl (fl (1 - c) * real n)\<rfloor> \<le> int n" by simp
qed

text \<open>
  There no conversion changes a value: the index read is the floor of the rounded
  product, or \<open>n - 1\<close> when that floor is \<open>n\<close>.
\<close>

lemma getVaR_index_clamped:
  assumes "0 \<le> c" and "c \<le> 1" and "0 < n" and "int n < 2 ^ 31"
  shows "getVaR_index c n = Some (min (nat \<lfloor>fl (fl (1 - c) * real n)\<rfloor>) (n - 1))"
proof -
  define t where "t = \<lfloor>fl (fl (1 - c) * real n)\<rfloor>"
  note rb = rank_bounds [OF assms(1,2,4)]
  have t0: "0 \<le> t" and tn: "t \<le> int n"
    using rb(2,3) by (simp_all add: t_def)
  have nn: "\<not> fl (fl (1 - c) * real n) < 0"
    using rb(2) by (simp add: not_less zero_le_floor [symmetric] del: zero_le_floor)
  have tr: "truncate (fl (fl (1 - c) * fl (real n))) = t"
    using nn by (simp add: truncate_def t_def rb(1))
  show ?thesis
  proof (cases "t < int n")
    case True
    then have small: "t < 2 ^ 31" using assms(4) by linarith
    then have "to_size_t t = t" by (rule to_size_t_id [OF t0])
    moreover have "min (nat t) (n - 1) = nat t" using True t0 by linarith
    ultimately show ?thesis
      using True t0 small
      by (simp add: getVaR_index_def Let_def tr t_def [symmetric])
  next
    case False
    then have te: "t = int n" using tn by simp
    have s1: "to_size_t t = t" using te assms(4) by (simp add: to_size_t_def)
    have n1: "0 \<le> int n - 1" "int n - 1 < 2 ^ 31" using assms(3,4) by simp_all
    have s2: "to_int32 (int n - 1) = int n - 1" using n1 by (rule to_int32_id)
    have s3: "to_size_t (int n - 1) = int n - 1" using n1 by (rule to_size_t_id)
    have m: "min (nat t) (n - 1) = n - 1" using te by simp
    have "nat (int n - 1) = n - 1" by simp
    then show ?thesis
      using te s1 s2 s3 m assms(3,4)
      by (simp add: getVaR_index_def Let_def tr t_def [symmetric])
  qed
qed

lemma getVaR_rank:
  assumes "dailyReturns pm \<noteq> []" and "0 \<le> c" and "c \<le> 1"
    and "int (length (dailyReturns pm)) < 2 ^ 31"
  shows "getVaR c pm =
           Some (- (sort (dailyReturns pm) !
                      min (nat \<lfloor>fl (fl (1 - c) * real (length (dailyReturns pm)))\<rfloor>)
                          (length (dailyReturns pm) - 1)))"
proof -
  have "0 < length (dailyReturns pm)" using assms(1) by simp
  from getVaR_index_clamped [OF assms(2,3) this assms(4)] assms(1)
  show ?thesis by (simp add: getVaR_def Let_def)
qed

lemma min_pred_less: "0 < (n::nat) \<Longrightarrow> min a (n - 1) < n"
  by arith

lemma recordAll_small: "int (length (dailyReturns (recordAll xs PortfolioManager_ctor))) < 2 ^ 31"
proof -
  have "int (length (dailyReturns (recordAll xs PortfolioManager_ctor))) \<le> 252"
    using recordAll_ctor_length [of xs] by simp
  then show ?thesis by simp
qed

text \<open>
  The index for five returns and the doubles of the decimal literals \<open>0.2\<close>, \<open>0.8\<close>
  and \<open>0.95\<close>, step by step: the literal, the difference, the product.
\<close>

lemma Suc5: "Suc (Suc (Suc (Suc (Suc 0)))) = 5"
  by simp

lemma fl_five: "fl (real (5::nat)) = 5"
  by (simp add: fl_of_nat)

lemma getVaR_index_20: "getVaR_index (fl (1 / 5)) 5 = Some 4"
proof -
  have a: "fl (1 / 5) = 3602879701896397 / 18014398509481984"
    by (subst fl_eval [of "- 3"]) (simp_all add: round_even_def)
  have b: "fl (1 - fl (1 / 5)) = 3602879701896397 / 4503599627370496"
    unfolding a by (subst fl_eval [of "- 1"]) (simp_all add: round_even_def)
  have c: "fl (fl (1 - fl (1 / 5)) * fl (real (5::nat))) = 4"
    unfolding b fl_five by (subst fl_eval [of 2]) (simp_all add: round_even_def)
  show ?thesis
    unfolding getVaR_index_def Let_def c by (simp add: truncate_def to_size_t_def)
qed

lemma getVaR_index_80: "getVaR_index (fl (4 / 5)) 5 = Some 0"
proof -
  have a: "fl (4 / 5) = 3602879701896397 / 4503599627370496"
    by (subst fl_eval [of "- 1"]) (simp_all add: round_even_def)
  have b: "fl (1 - fl (4 / 5)) = 900719925474099 / 4503599627370496"
    unfolding a by (subst fl_eval [of "- 3"]) (simp_all add: round_even_def)
  have c: "fl (fl (1 - fl (4 / 5)) * fl (real (5::nat))) = 4503599627370495 / 4503599627370496"
    unfolding b fl_five by (subst fl_eval [of "- 1"]) (simp_all add: round_even_def)
  show ?thesis
    unfolding getVaR_index_def Let_def c by (simp add: truncate_def to_size_t_def)
qed

lemma getVaR_index_95: "getVaR_index (fl (19 / 20)) 5 = Some 0"
proof -
  have a: "fl (19 / 20) = 4278419646001971 / 4503599627370496"
    by (subst fl_eval [of "- 1"]) (simp_all add: round_even_def)
  have b: "fl (1 - fl (19 / 20)) = 225179981368525 / 4503599627370496"
    unfolding a by (subst fl_eval [of "- 5"]) (simp_all add: round_even_def)
  have c: "fl (fl (1 - fl (19 / 20)) * fl (real (5::nat))) = 1125899906842625 / 4503599627370496"
    unfolding b fl_five by (subst fl_eval [of "- 2"]) (simp_all add: round_even_def)
  show ?thesis
    unfolding getVaR_index_def Let_def c by (simp add: truncate_def to_size_t_def)
qed

text \<open>The ranks that exact arithmetic gives for the same doubles.\<close>

lemma exact_rank_20:
  "fl (1 / 5) = 3602879701896397 / 18014398509481984"
  "\<lfloor>(1 - fl (1 / 5)) * 5\<rfloor> = 3"
proof -
  show a: "fl (1 / 5) = 3602879701896397 / 18014398509481984"
    by (subst fl_eval [of "- 3"]) (simp_all add: round_even_def)
  show "\<lfloor>(1 - fl (1 / 5)) * 5\<rfloor> = 3" unfolding a by simp
qed

text \<open>
  Claim C8, as stated, fails. For the confidence level \<open>0.2\<close> (as a double, slightly
  above \<open>1/5\<close>) and the five returns 1 to 5, the code computes \<open>1.0 - 0.2\<close> as the
  double of \<open>0.8\<close> and its product with 5 as \<open>4.0\<close>: it reads index 4 and returns
  \<open>-5\<close>, while the floor of \<open>(1 - c) * 5\<close> is 3, whose element is 4. For the double
  of \<open>0.8\<close> the code reads index 0 and returns \<open>-1\<close>, while \<open>(1 - 0.8) * 5\<close> in
  decimals is 1, whose element is 2.
\<close>

theorem C8_var_rank_counterexample:
  "0 \<le> fl (2 / 10) \<and> fl (2 / 10) \<le> 1 \<and>
   getVaR (fl (2 / 10)) (recordAll [1, 2, 3, 4, 5] PortfolioManager_ctor) = Some (- 5) \<and>
   \<lfloor>(1 - fl (2 / 10)) * 5\<rfloor> = 3 \<and>
   - (sort [1, 2, 3, 4, 5 :: real] ! 3) = - 4 \<and>
   getVaR (fl (8 / 10)) (recordAll [1, 2, 3, 4, 5] PortfolioManager_ctor) = Some (- 1) \<and>
   \<lfloor>(1 - 8 / 10) * (5 :: real)\<rfloor> = 1 \<and>
   - (sort [1, 2, 3, 4, 5 :: real] ! 1) = - 2"
  using exact_rank_20 getVaR_index_20 getVaR_index_80
  by (simp add: getVaR_def recordDailyReturn_def PortfolioManager_ctor_def Suc5)

text \<open>
  Claim C8, amended. For every non-empty return series that the portfolio manager holds
  (the series after any sequence \<open>xs\<close> of recorded returns) and every confidence level
  \<open>c\<close> in \<open>[0, 1]\<close>, \<^verbatim>\<open>getVaR\<close> returns the negation of the element of the
  ascending sorted series at the rank that double arithmetic computes: \<open>1 - c\<close> rounded
  to a double, times \<open>n\<close>, rounded to a double, then truncated, and clamped to the last
  index \<open>n - 1\<close>. This rank can differ from \<open>floor ((1 - c) * n)\<close>. For the doubles of
  the returns \<open>-0.05, -0.02, 0.01, 0.03, 0.04\<close> and of \<open>c = 0.95\<close> the rank is 0 and
  the result is the double of \<open>0.05\<close>.
\<close>

theorem C8_var_rank_rounded:
  "(dailyReturns (recordAll xs PortfolioManager_ctor) \<noteq> [] \<and> 0 \<le> c \<and> c \<le> 1 \<longrightarrow>
      getVaR c (recordAll xs PortfolioManager_ctor) =
        Some (- (sort (dailyReturns (recordAll xs PortfolioManager_ctor)) !
                   min (nat \<lfloor>fl (fl (1 - c) *
                          real (length (dailyReturns (recordAll xs PortfolioManager_ctor))))\<rfloor>)
                       (length (dailyReturns (recordAll xs PortfolioManager_ctor)) - 1)))) \<and>
   getVaR_index (fl (95 / 100)) 5 = Some 0 \<and>
   getVaR (fl (95 / 100))
     (recordAll [- fl (5 / 100), - fl (2 / 100), fl (1 / 100), fl (3 / 100), fl (4 / 100)]
        PortfolioManager_ctor) =
     Some (fl (5 / 100))"
proof -
  have v: "fl (1 / 20) = 3602879701896397 / 72057594037927936"
      "fl (1 / 50) = 5764607523034235 / 288230376151711744"
      "fl (1 / 100) = 5764607523034235 / 576460752303423488"
      "fl (3 / 100) = 8646911284551352 / 288230376151711744"
      "fl (1 / 25) = 5764607523034235 / 144115188075855872"
    by (subst fl_eval [of "- 5"], simp_all add: round_even_def,
        subst fl_eval [of "- 6"], simp_all add: round_even_def,
        subst fl_eval [of "- 7"], simp_all add: round_even_def,
        subst fl_eval [of "- 6"], simp_all add: round_even_def,
        subst fl_eval [of "- 5"], simp_all add: round_even_def)
  have i: "getVaR_index (fl (95 / 100)) 5 = Some 0"
    using getVaR_index_95 by simp
  have "getVaR (fl (95 / 100))
     (recordAll [- fl (5 / 100), - fl (2 / 100), fl (1 / 100), fl (3 / 100), fl (4 / 100)]
        PortfolioManager_ctor) =
     Some (fl (5 / 100))"
    using getVaR_index_95
    by (simp add: getVaR_def recordDailyReturn_def PortfolioManager_ctor_def v Suc5)
  with i show ?thesis
    using getVaR_rank [of "recordAll xs PortfolioManager_ctor" c] recordAll_small [of xs]
    by blast
qed

text \<open>
  The witness: four returns and the confidence levels \<open>1/2\<close> (rank 2) and 0 (rank 4,
  clamped to 3).
\<close>

theorem C8_var_rank_rounded_witness:
  "dailyReturns (recordAll [3, - 5, 1, - 2] PortfolioManager_ctor) = [3, - 5, 1, - 2] \<and>
   getVaR (1 / 2) (recordAll [3, - 5, 1, - 2] PortfolioManager_ctor) = Some (- 1) \<and>
   getVaR 0 (recordAll [3, - 5, 1, - 2] PortfolioManager_ctor) = Some (- 3)"
  using C8_var_rank_rounded [of "[3, - 5, 1, - 2]" "1 / 2"]
        C8_var_rank_rounded [of "[3, - 5, 1, - 2]" 0]
  by (simp add: recordDailyReturn_def PortfolioManager_ctor_def)

text \<open>
  Claim C10. For every return series that the portfolio manager holds and every
  confidence level \<open>c\<close> in \<open>[0, 1]\<close>, \<^verbatim>\<open>getVaR\<close> returns a value (no cast or subscript
  of it is undefined) and \<^verbatim>\<open>getMaxDrawdown\<close>, a loop over the series, returns one too. On
  the empty series both return 0. On a non-empty series the index that \<^verbatim>\<open>getVaR\<close>
  reads is below the length of the sorted series.
\<close>

theorem C10_total_and_in_bounds:
  "(0 \<le> c \<and> c \<le> 1 \<longrightarrow>
      (\<exists>v. getVaR c (recordAll xs PortfolioManager_ctor) = Some v) \<and>
      (dailyReturns (recordAll xs PortfolioManager_ctor) \<noteq> [] \<longrightarrow>
         (\<exists>i. getVaR_index c (length (sort (dailyReturns (recordAll xs PortfolioManager_ctor))))
                 = Some i \<and>
              i < length (sort (dailyReturns (recordAll xs PortfolioManager_ctor)))))) \<and>
   (dailyReturns (recordAll xs PortfolioManager_ctor) = [] \<longrightarrow>
      getVaR c (recordAll xs PortfolioManager_ctor) = Some 0 \<and>
      getMaxDrawdown (recordAll xs PortfolioManager_ctor) = 0)"
proof -
  let ?pm = "recordAll xs PortfolioManager_ctor"
  let ?n = "length (dailyReturns ?pm)"
  have empty: "dailyReturns ?pm = [] \<longrightarrow> getVaR c ?pm = Some 0 \<and> getMaxDrawdown ?pm = 0"
    by (simp add: getVaR_def getMaxDrawdown_def)
  have bounded: "\<exists>i. getVaR_index c (length (sort (dailyReturns ?pm))) = Some i \<and>
                     i < length (sort (dailyReturns ?pm))"
    if "0 \<le> c" "c \<le> 1" "dailyReturns ?pm \<noteq> []"
  proof -
    have pos: "0 < ?n" using that(3) by simp
    have "getVaR_index c ?n = Some (min (nat \<lfloor>fl (fl (1 - c) * real ?n)\<rfloor>) (?n - 1))"
      using getVaR_index_clamped [OF that(1,2) pos recordAll_small] .
    moreover have "min (nat \<lfloor>fl (fl (1 - c) * real ?n)\<rfloor>) (?n - 1) < ?n"
      using pos by (rule min_pred_less)
    ultimately show ?thesis by simp
  qed
  have defined: "\<exists>v. getVaR c ?pm = Some v" if "0 \<le> c" "c \<le> 1"
  proof (cases "dailyReturns ?pm = []")
    case True
    then show ?thesis by (simp add: getVaR_def)
  next
    case False
    then show ?thesis using getVaR_rank [OF False that recordAll_small] by simp
  qed
  show ?thesis using empty bounded defined by blast
qed

theorem C10_total_and_in_bounds_witness:
  "getVaR (95 / 100) (recordAll [] PortfolioManager_ctor) = Some 0 \<and>
   getMaxDrawdown (recordAll [] PortfolioManager_ctor) = 0 \<and>
   (\<exists>v. getVaR 0 (recordAll [3 / 100, - (5 / 100)] PortfolioManager_ctor) = Some v) \<and>
   (\<exists>i. getVaR_index 0 (length [3 / 100, - (5 / 100) :: real]) = Some i \<and>
        i < length [3 / 100, - (5 / 100) :: real])"
  using C10_total_and_in_bounds [of "95 / 100" "[]"]
        C10_total_and_in_bounds [of 0 "[3 / 100, - (5 / 100)]"]
  by (simp add: recordDailyReturn_def PortfolioManager_ctor_def)

section \<open>Properties of order placement, cancellation and modification\<close>

lemma emit_fields [simp]:
  "client (emit es s) = client s"
  "orders (emit es s) = orders s"
  "maxPositionSize (emit es s) = maxPositionSize s"
  "maxDailyLoss (emit es s) = maxDailyLoss s"
  "dailyPnL (emit es s) = dailyPnL s"
  "totalTrades (emit es s) = totalTrades s"
  "winningTrades (emit es s) = winningTrades s"
  "events (emit es s) = events s @ es"
  by (simp_all add: emit_def)

lemma checkRiskLimits_emit [simp]: "checkRiskLimits (emit es s) order = checkRiskLimits s order"
  by (simp add: checkRiskLimits_def)

lemma validateOrder_emit [simp]: "validateOrder (emit es s) order = validateOrder s order"
  by (simp only: validateOrder_def checkRiskLimits_emit)

lemma order_builders [simp]:
  "symbol (marketOrder symb sd qty now) = symb"
  "quantity (marketOrder symb sd qty now) = qty"
  "type (marketOrder symb sd qty now) = MARKET"
  "symbol (limitOrder symb sd qty prc now) = symb"
  "quantity (limitOrder symb sd qty prc now) = qty"
  "price (limitOrder symb sd qty prc now) = prc"
  "type (limitOrder symb sd qty prc now) = LIMIT"
  "symbol (stopOrder symb sd qty stp now) = symb"
  "quantity (stopOrder symb sd qty stp now) = qty"
  "stopPrice (stopOrder symb sd qty stp now) = stp"
  "type (stopOrder symb sd qty stp now) = STOP"
  "symbol (stopLimitOrder symb sd qty prc stp now) = symb"
  "quantity (stopLimitOrder symb sd qty prc stp now) = qty"
  "price (stopLimitOrder symb sd qty prc stp now) = prc"
  "stopPrice (stopLimitOrder symb sd qty prc stp now) = stp"
  "type (stopLimitOrder symb sd qty prc stp now) = STOP_LIMIT"
  by (simp_all add: marketOrder_def limitOrder_def stopOrder_def stopLimitOrder_def
        Order_ctor_def)

text \<open>An order that \<^verbatim>\<open>validateOrder\<close> accepts has passed each of its five checks.\<close>

lemma validateOrder_structural:
  "validateOrder s order \<Longrightarrow>
   symbol order \<noteq> [] \<and> 0 < quantity order \<and>
   (type order = LIMIT \<longrightarrow> 0 < price order) \<and>
   (type order = STOP \<longrightarrow> 0 < stopPrice order) \<and>
   (type order = STOP_LIMIT \<longrightarrow> 0 < price order \<and> 0 < stopPrice order)"
  by (auto simp: validateOrder_def split: if_splits)

lemma submit_rejected:
  "fst (c_placeOrder V order (client s)) \<le> 0 \<Longrightarrow>
   fst (submit V order s) = fst (c_placeOrder V order (client s)) \<and>
   orders (snd (submit V order s)) = orders s"
  by (cases "c_placeOrder V order (client s)") (simp add: submit_def Let_def)

lemma place_market_fail:
  "symb = [] \<or> qty \<le> 0 \<or> \<not> validateOrder s (marketOrder symb sd qty now) \<or>
   fst (c_placeOrder V (marketOrder symb sd qty now) (client s)) \<le> 0 \<Longrightarrow>
   fst (placeMarketOrder V symb sd qty now s) \<le> 0 \<and>
   orders (snd (placeMarketOrder V symb sd qty now s)) = orders s"
  using validateOrder_structural [of s "marketOrder symb sd qty now"]
        submit_rejected [of V "marketOrder symb sd qty now" s]
  by (auto simp: placeMarketOrder_def Let_def)

lemma place_limit_fail:
  "symb = [] \<or> qty \<le> 0 \<or> prc \<le> 0 \<or> \<not> validateOrder s (limitOrder symb sd qty prc now) \<or>
   fst (c_placeOrder V (limitOrder symb sd qty prc now) (client s)) \<le> 0 \<Longrightarrow>
   fst (placeLimitOrder V symb sd qty prc now s) \<le> 0 \<and>
   orders (snd (placeLimitOrder V symb sd qty prc now s)) = orders s"
  using validateOrder_structural [of s "limitOrder symb sd qty prc now"]
        submit_rejected [of V "limitOrder symb sd qty prc now" s]
  by (auto simp: placeLimitOrder_def Let_def)

lemma place_stop_fail:
  "symb = [] \<or> qty \<le> 0 \<or> stp \<le> 0 \<or> \<not> validateOrder s (stopOrder symb sd qty stp now) \<or>
   fst (c_placeOrder V (stopOrder symb sd qty stp now) (client s)) \<le> 0 \<Longrightarrow>
   fst (placeStopOrder V symb sd qty stp now s) \<le> 0 \<and>
   orders (snd (placeStopOrder V symb sd qty stp now s)) = orders s"
  using validateOrder_structural [of s "stopOrder symb sd qty stp now"]
        submit_rejected [of V "stopOrder symb sd qty stp now" s]
  by (auto simp: placeStopOrder_def Let_def)

lemma place_stop_limit_fail:
  "symb = [] \<or> qty \<le> 0 \<or> prc \<le> 0 \<or> stp \<le> 0 \<or>
   \<not> validateOrder s (stopLimitOrder symb sd qty prc stp now) \<or>
   fst (c_placeOrder V (stopLimitOrder symb sd qty prc stp now) (client s)) \<le> 0 \<Longrightarrow>
   fst (placeStopLimitOrder V symb sd qty prc stp now s) \<le> 0 \<and>
   orders (snd (placeStopLimitOrder V symb sd qty prc stp now s)) = orders s"
  using validateOrder_structural [of s "stopLimitOrder symb sd qty prc stp now"]
        submit_rejected [of V "stopLimitOrder symb sd qty prc stp now" s]
  by (auto simp: placeStopLimitOrder_def Let_def)

text \<open>
  Claim C1. For each of the four placement functions: when the symbol is empty, or the
  quantity is not positive, or a price that the order type requires (the limit price of
  a limit or stop-limit order, the stop price of a stop or stop-limit order) is not
  positive, or \<^verbatim>\<open>validateOrder\<close> rejects the order for any other reason, or the
  client's \<^verbatim>\<open>placeOrder\<close> returns an id that is not positive, the call returns a value
  \<open>\<le> 0\<close> and the order book after the call is the order book before it.
\<close>

theorem C1_failed_placement:
  "(symb = [] \<or> qty \<le> 0 \<or> \<not> validateOrder s (marketOrder symb sd qty now) \<or>
    fst (c_placeOrder V (marketOrder symb sd qty now) (client s)) \<le> 0 \<longrightarrow>
      fst (placeMarketOrder V symb sd qty now s) \<le> 0 \<and>
      orders (snd (placeMarketOrder V symb sd qty now s)) = orders s) \<and>
   (symb = [] \<or> qty \<le> 0 \<or> prc \<le> 0 \<or> \<not> validateOrder s (limitOrder symb sd qty prc now) \<or>
    fst (c_placeOrder V (limitOrder symb sd qty prc now) (client s)) \<le> 0 \<longrightarrow>
      fst (placeLimitOrder V symb sd qty prc now s) \<le> 0 \<and>
      orders (snd (placeLimitOrder V symb sd qty prc now s)) = orders s) \<and>
   (symb = [] \<or> qty \<le> 0 \<or> stp \<le> 0 \<or> \<not> validateOrder s (stopOrder symb sd qty stp now) \<or>
    fst (c_placeOrder V (stopOrder symb sd qty stp now) (client s)) \<le> 0 \<longrightarrow>
      fst (placeStopOrder V symb sd qty stp now s) \<le> 0 \<and>
      orders (snd (placeStopOrder V symb sd qty stp now s)) = orders s) \<and>
   (symb = [] \<or> qty \<le> 0 \<or> prc \<le> 0 \<or> stp \<le> 0 \<or>
    \<not> validateOrder s (stopLimitOrder symb sd qty prc stp now) \<or>
    fst (c_placeOrder V (stopLimitOrder symb sd qty prc stp now) (client s)) \<le> 0 \<longrightarrow>
      fst (placeStopLimitOrder V symb sd qty prc stp now s) \<le> 0 \<and>
      orders (snd (placeStopLimitOrder V symb sd qty prc stp now s)) = orders s)"
  using place_market_fail [of symb qty s sd now V]
        place_limit_fail [of symb qty prc s sd now V]
        place_stop_fail [of symb qty stp s sd now V]
        place_stop_limit_fail [of symb qty prc stp s sd now V]
  by blast

text \<open>
  The witness: on a connected client, an empty symbol fails each of the four calls; on a
  client that is not connected, \<^verbatim>\<open>placeOrder\<close> returns \<open>-1\<close> for orders that pass
  validation. The book stays empty.
\<close>

theorem C1_failed_placement_witness:
  "fst (placeMarketOrder Impl_client [] BUY 10 0
          (OrderManager_ctor (snd (Impl_connect Impl_ctor)))) \<le> 0 \<and>
   orders (snd (placeMarketOrder Impl_client [] BUY 10 0
          (OrderManager_ctor (snd (Impl_connect Impl_ctor))))) = Map.empty \<and>
   fst (placeLimitOrder Impl_client [] BUY 10 50 0
          (OrderManager_ctor (snd (Impl_connect Impl_ctor)))) \<le> 0 \<and>
   orders (snd (placeLimitOrder Impl_client [] BUY 10 50 0
          (OrderManager_ctor (snd (Impl_connect Impl_ctor))))) = Map.empty \<and>
   fst (placeStopOrder Impl_client [] BUY 10 50 0
          (OrderManager_ctor (snd (Impl_connect Impl_ctor)))) \<le> 0 \<and>
   orders (snd (placeStopOrder Impl_client [] BUY 10 50 0
          (OrderManager_ctor (snd (Impl_connect Impl_ctor))))) = Map.empty \<and>
   fst (placeStopLimitOrder Impl_client [] BUY 10 50 50 0
          (OrderManager_ctor (snd (Impl_connect Impl_ctor)))) \<le> 0 \<and>
   orders (snd (placeStopLimitOrder Impl_client [] BUY 10 50 50 0
          (OrderManager_ctor (snd (Impl_connect Impl_ctor))))) = Map.empty \<and>
   fst (c_placeOrder Impl_client (limitOrder ''X'' BUY 10 50 0)
          (client (OrderManager_ctor Impl_ctor))) \<le> 0 \<and>
   fst (placeLimitOrder Impl_client ''X'' BUY 10 50 0 (OrderManager_ctor Impl_ctor)) \<le> 0 \<and>
   orders (snd (placeLimitOrder Impl_client ''X'' BUY 10 50 0 (OrderManager_ctor Impl_ctor)))
     = Map.empty"
  using C1_failed_placement
          [of "[]" 10 "OrderManager_ctor (snd (Impl_connect Impl_ctor))" BUY 0 Impl_client 50 50]
        C1_failed_placement [of "''X''" 10 "OrderManager_ctor Impl_ctor" BUY 0 Impl_client 50 50]
  by (simp add: OrderManager_ctor_def Impl_client_def Impl_placeOrder_def Impl_ctor_def)

text \<open>
  The double of the decimal literal \<open>0.01\<close>, slightly above \<open>1/100\<close>, and its product
  with 1000000, which rounds to 10000; the square of \<open>1 + 2^-52\<close> rounds to
  \<open>1 + 2^-51\<close>.
\<close>

lemma fl_cent:
  "fl (1 / 100) = 5764607523034235 / 576460752303423488"
  "fl (1000000 * fl (1 / 100)) = 10000"
proof -
  show a: "fl (1 / 100) = 5764607523034235 / 576460752303423488"
    by (subst fl_eval [of "- 7"]) (simp_all add: round_even_def)
  show "fl (1000000 * fl (1 / 100)) = 10000"
    unfolding a by (subst fl_eval [of 13]) (simp_all add: round_even_def)
qed

lemma fl_square: "fl ((1 + 1 / 2 ^ 52) * (1 + 1 / 2 ^ 52)) = 1 + 1 / 2 ^ 51"
  by (subst fl_eval [of 0]) (simp_all add: round_even_def)

text \<open>
  Claim C2, as stated, fails. With the limit of 10000 that the constructor sets, a limit
  order of 1000000 at the price \<open>0.01\<close> (as a double) has a notional above 10000, and
  the double product is 10000: the order is accepted. With the limit \<open>1 + 2^-51\<close>, an
  order of \<open>1 + 2^-52\<close> at \<open>1 + 2^-52\<close> has a notional above the limit and is
  accepted.
\<close>

theorem C2_risk_limit_counterexample:
  "maxPositionSize (OrderManager_ctor Impl_ctor)
     < quantity (limitOrder ''X'' BUY 1000000 (fl (1 / 100)) 0) *
       price (limitOrder ''X'' BUY 1000000 (fl (1 / 100)) 0) \<and>
   checkRiskLimits (OrderManager_ctor Impl_ctor)
     (limitOrder ''X'' BUY 1000000 (fl (1 / 100)) 0) \<and>
   validateOrder (OrderManager_ctor Impl_ctor)
     (limitOrder ''X'' BUY 1000000 (fl (1 / 100)) 0) \<and>
   maxPositionSize (setMaxPositionSize (1 + 1 / 2 ^ 51) (OrderManager_ctor Impl_ctor))
     < quantity (limitOrder ''X'' BUY (1 + 1 / 2 ^ 52) (1 + 1 / 2 ^ 52) 0) *
       price (limitOrder ''X'' BUY (1 + 1 / 2 ^ 52) (1 + 1 / 2 ^ 52) 0) \<and>
   checkRiskLimits (setMaxPositionSize (1 + 1 / 2 ^ 51) (OrderManager_ctor Impl_ctor))
     (limitOrder ''X'' BUY (1 + 1 / 2 ^ 52) (1 + 1 / 2 ^ 52) 0) \<and>
   validateOrder (setMaxPositionSize (1 + 1 / 2 ^ 51) (OrderManager_ctor Impl_ctor))
     (limitOrder ''X'' BUY (1 + 1 / 2 ^ 52) (1 + 1 / 2 ^ 52) 0)"
proof -
  let ?s = "OrderManager_ctor Impl_ctor"
  let ?order = "limitOrder ''X'' BUY 1000000 (fl (1 / 100)) 0"
  let ?s' = "setMaxPositionSize (1 + 1 / 2 ^ 51) (OrderManager_ctor Impl_ctor)"
  let ?order' = "limitOrder ''X'' BUY (1 + 1 / 2 ^ 52) (1 + 1 / 2 ^ 52) 0"
  have pos: "0 < fl (1 / 100)" unfolding fl_cent(1) by simp
  have big: "maxPositionSize ?s < quantity ?order * price ?order"
    unfolding fl_cent(1) order_builders by (simp add: OrderManager_ctor_def)
  have chk: "checkRiskLimits ?s ?order"
    by (simp only: checkRiskLimits_def Let_def order_builders fl_cent(2))
       (simp add: OrderManager_ctor_def)
  have val: "validateOrder ?s ?order"
    using pos chk by (simp add: validateOrder_def)
  have big': "maxPositionSize ?s' < quantity ?order' * price ?order'"
    unfolding order_builders by (simp add: setMaxPositionSize_def)
  have chk': "checkRiskLimits ?s' ?order'"
    by (simp only: checkRiskLimits_def Let_def order_builders fl_square)
       (simp add: setMaxPositionSize_def OrderManager_ctor_def)
  have val': "validateOrder ?s' ?order'"
    using chk' by (simp add: validateOrder_def)
  show ?thesis using big chk val big' chk' val' by blast
qed

text \<open>
  Claim C2, amended. For every order that passes the structural checks of
  \<^verbatim>\<open>validateOrder\<close>, when the daily PnL is not below the negated maximal daily loss:
  \<^verbatim>\<open>checkRiskLimits\<close> (and with it \<^verbatim>\<open>validateOrder\<close>) rejects the order if the product
  \<open>quantity * price\<close> as computed in double arithmetic, that is rounded to the nearest
  double, is greater than the maximal position size, and accepts it if this computed
  product is at most the maximal position size; an order whose computed notional equals
  the limit is accepted. The exact product of an accepted order can exceed the limit, by
  less than the rounding error. (A product beyond the largest double is an infinity in
  the program and is rejected, as the large product is here.)
\<close>

theorem C2_risk_limit_rounded:
  assumes "symbol order \<noteq> []" and "0 < quantity order"
    and "type order = LIMIT \<longrightarrow> 0 < price order"
    and "type order = STOP \<longrightarrow> 0 < stopPrice order"
    and "type order = STOP_LIMIT \<longrightarrow> 0 < price order \<and> 0 < stopPrice order"
    and "- maxDailyLoss s \<le> dailyPnL s"
  shows "(maxPositionSize s < fl (quantity order * price order) \<longrightarrow>
            \<not> checkRiskLimits s order \<and> \<not> validateOrder s order) \<and>
         (fl (quantity order * price order) \<le> maxPositionSize s \<longrightarrow>
            checkRiskLimits s order \<and> validateOrder s order) \<and>
         (fl (quantity order * price order) = maxPositionSize s \<longrightarrow>
            checkRiskLimits s order \<and> validateOrder s order)"
  using assms by (auto simp: validateOrder_def checkRiskLimits_def Let_def)

text \<open>
  The witness: with the limit of 10000 that the constructor sets, a limit order of 100 at
  100 (notional 10000, computed exactly) is accepted and one of 100 at 101 (notional
  10100) is rejected.
\<close>

theorem C2_risk_limit_rounded_witness:
  "fl (quantity (limitOrder ''X'' BUY 100 100 0) * price (limitOrder ''X'' BUY 100 100 0))
     = maxPositionSize (OrderManager_ctor Impl_ctor) \<and>
   checkRiskLimits (OrderManager_ctor Impl_ctor) (limitOrder ''X'' BUY 100 100 0) \<and>
   validateOrder (OrderManager_ctor Impl_ctor) (limitOrder ''X'' BUY 100 100 0) \<and>
   \<not> checkRiskLimits (OrderManager_ctor Impl_ctor) (limitOrder ''X'' BUY 100 101 0) \<and>
   \<not> validateOrder (OrderManager_ctor Impl_ctor) (limitOrder ''X'' BUY 100 101 0)"
  using C2_risk_limit_rounded [of "limitOrder ''X'' BUY 100 100 0" "OrderManager_ctor Impl_ctor"]
        C2_risk_limit_rounded [of "limitOrder ''X'' BUY 100 101 0" "OrderManager_ctor Impl_ctor"]
  by (simp add: OrderManager_ctor_def)

text \<open>
  Claim C5. For every id that is in the order book and every \<^verbatim>\<open>newOrder\<close> that
  \<^verbatim>\<open>validateOrder\<close> accepts, when the client's \<^verbatim>\<open>modifyOrder\<close> returns true,
  \<^verbatim>\<open>modifyOrder\<close> returns true and the book differs from the old one only under that id,
  where it holds \<^verbatim>\<open>newOrder\<close> with its \<^verbatim>\<open>orderId\<close> set to the id of the call, whatever
  id \<^verbatim>\<open>newOrder\<close> carried.
\<close>

theorem C5_modify_keeps_id:
  assumes "orders s oid = Some old" and "validateOrder s newOrder"
    and "fst (c_modifyOrder V oid newOrder (client s))"
  shows "fst (modifyOrder V oid newOrder s) \<and>
         orders (snd (modifyOrder V oid newOrder s)) =
           (orders s)(oid \<mapsto> newOrder\<lparr>orderId := oid\<rparr>) \<and>
         map_option orderId (orders (snd (modifyOrder V oid newOrder s)) oid) = Some oid"
  using assms
  by (cases "c_modifyOrder V oid newOrder (client s)") (simp add: modifyOrder_def Let_def)

lemma oneOrderManager_simps:
  "orders oneOrderManager = [1001 \<mapsto> (limitOrder ''X'' BUY 10 50 7)\<lparr>orderId := 1001\<rparr>]"
  "client oneOrderManager = \<lparr>connected = True, nextOrderId = 1001\<rparr>"
  "maxPositionSize oneOrderManager = 10000"
  "maxDailyLoss oneOrderManager = 1000"
  "dailyPnL oneOrderManager = 0"
  by (simp_all add: oneOrderManager_def connectedManager_def placeLimitOrder_def submit_def
        Let_def validateOrder_def checkRiskLimits_def OrderManager_ctor_def Impl_client_def
        Impl_placeOrder_def Impl_connect_def Impl_ctor_def)

text \<open>
  The witness: the stored order 1001 is replaced by an order that carries the id 42; the
  stored replacement has the id 1001.
\<close>

theorem C5_modify_keeps_id_witness:
  "orderId ((limitOrder ''X'' SELL 20 60 9)\<lparr>orderId := 42\<rparr>) = 42 \<and>
   fst (modifyOrder Impl_client 1001 ((limitOrder ''X'' SELL 20 60 9)\<lparr>orderId := 42\<rparr>)
          oneOrderManager) \<and>
   orders (snd (modifyOrder Impl_client 1001 ((limitOrder ''X'' SELL 20 60 9)\<lparr>orderId := 42\<rparr>)
                  oneOrderManager)) 1001 =
     Some ((limitOrder ''X'' SELL 20 60 9)\<lparr>orderId := 1001\<rparr>)"
  using C5_modify_keeps_id [where s = oneOrderManager and oid = 1001 and V = Impl_client
          and old = "(limitOrder ''X'' BUY 10 50 7)\<lparr>orderId := 1001\<rparr>"
          and newOrder = "(limitOrder ''X'' SELL 20 60 9)\<lparr>orderId := 42\<rparr>"]
  by (simp add: oneOrderManager_simps validateOrder_def checkRiskLimits_def Impl_client_def
        Impl_modifyOrder_def)

text \<open>
  Claim C6. For every id that is not in the order book, \<^verbatim>\<open>cancelOrder\<close> returns false
  and changes no member of the order manager (it has acquired the lock, looked the id up
  and released the lock, without a call of the client). For an id that is in the book,
  \<^verbatim>\<open>cancelOrder\<close> returns what the client's \<^verbatim>\<open>cancelOrder\<close> returns: when that is true,
  the stored order's status becomes cancelled and the book is otherwise as before; when it
  is false, the book is as before.
\<close>

theorem C6_cancel:
  "(orders s oid = None \<longrightarrow>
      \<not> fst (cancelOrder V oid s) \<and>
      snd (cancelOrder V oid s) = s\<lparr>events := events s @ [Acquire, BookAccess, Release]\<rparr>) \<and>
   (orders s oid = Some old \<longrightarrow>
      fst (cancelOrder V oid s) = fst (c_cancelOrder V oid (client s)) \<and>
      (fst (c_cancelOrder V oid (client s)) \<longrightarrow>
         orders (snd (cancelOrder V oid s)) = (orders s)(oid \<mapsto> old\<lparr>status := CANCELLED\<rparr>)) \<and>
      (\<not> fst (c_cancelOrder V oid (client s)) \<longrightarrow>
         orders (snd (cancelOrder V oid s)) = orders s))"
  by (cases "c_cancelOrder V oid (client s)") (simp add: cancelOrder_def Let_def emit_def)

text \<open>
  The witness: the id 7 is not in the book; the id 1001 is, and is cancelled on the
  connected client and left pending on a client that has disconnected.
\<close>

theorem C6_cancel_witness:
  "\<not> fst (cancelOrder Impl_client 7 oneOrderManager) \<and>
   snd (cancelOrder Impl_client 7 oneOrderManager) =
     oneOrderManager\<lparr>events := events oneOrderManager @ [Acquire, BookAccess, Release]\<rparr> \<and>
   fst (cancelOrder Impl_client 1001 oneOrderManager) \<and>
   statusOf (snd (cancelOrder Impl_client 1001 oneOrderManager)) 1001 = Some CANCELLED \<and>
   \<not> fst (cancelOrder Impl_client 1001
            (oneOrderManager\<lparr>client := Impl_disconnect (client oneOrderManager)\<rparr>)) \<and>
   statusOf (snd (cancelOrder Impl_client 1001
                    (oneOrderManager\<lparr>client := Impl_disconnect (client oneOrderManager)\<rparr>)))
     1001 = Some PENDING"
  using C6_cancel [where s = oneOrderManager and oid = 7 and V = Impl_client]
        C6_cancel [where s = oneOrderManager and oid = 1001 and V = Impl_client
                     and old = "(limitOrder ''X'' BUY 10 50 7)\<lparr>orderId := 1001\<rparr>"]
        C6_cancel [where s = "oneOrderManager\<lparr>client := Impl_disconnect (client oneOrderManager)\<rparr>"
                     and oid = 1001 and V = Impl_client
                     and old = "(limitOrder ''X'' BUY 10 50 7)\<lparr>orderId := 1001\<rparr>"]
  by (simp add: oneOrderManager_simps statusOf_def Impl_client_def Impl_cancelOrder_def
        Impl_disconnect_def limitOrder_def Order_ctor_def)

section \<open>Properties of the status of a stored order\<close>

lemma statusOf_emit [simp]: "statusOf (emit es s) i = statusOf s i"
  by (simp add: statusOf_def)

lemma cancel_status:
  "statusOf (snd (cancelOrder V j s)) i =
     (if i = j \<and> orders s j \<noteq> None \<and> fst (c_cancelOrder V j (client s)) then Some CANCELLED
      else statusOf s i)"
  by (cases "c_cancelOrder V j (client s)")
     (auto simp: cancelOrder_def Let_def statusOf_def split: option.splits)

lemma modify_status:
  "statusOf (snd (modifyOrder V j n s)) i =
     (if i = j \<and> orders s j \<noteq> None \<and> validateOrder s n \<and> fst (c_modifyOrder V j n (client s))
      then Some (status n) else statusOf s i)"
  by (cases "c_modifyOrder V j n (client s)")
     (auto simp: modifyOrder_def Let_def statusOf_def split: option.splits)

lemma update_status:
  "statusOf (updateOrderStatus j st s) i =
     (if i = j \<and> orders s j \<noteq> None then Some st else statusOf s i)"
  by (auto simp: updateOrderStatus_def Let_def statusOf_def split: option.splits)

lemma submit_status:
  "statusOf (snd (submit V order s)) i =
     (if i = fst (c_placeOrder V order (client s)) \<and> 0 < i then Some (status order)
      else statusOf s i)"
  by (cases "c_placeOrder V order (client s)") (auto simp: submit_def Let_def statusOf_def)

lemma builders_status [simp]:
  "status (marketOrder symb sd qty now) = PENDING"
  "status (limitOrder symb sd qty prc now) = PENDING"
  "status (stopOrder symb sd qty stp now) = PENDING"
  "status (stopLimitOrder symb sd qty prc stp now) = PENDING"
  by (simp_all add: marketOrder_def limitOrder_def stopOrder_def stopLimitOrder_def
        Order_ctor_def)

lemma placement_status:
  assumes "isPlacement c" and "statusOf (step V c s) i \<noteq> statusOf s i"
  shows "statusOf (step V c s) i = Some PENDING"
  using assms
  by (cases c)
     (auto simp: placeMarketOrder_def placeLimitOrder_def placeStopOrder_def
        placeStopLimitOrder_def Let_def submit_status split: if_splits)

lemma set_status [simp]:
  "statusOf (setMaxPositionSize m s) i = statusOf s i"
  "statusOf (setMaxDailyLoss m s) i = statusOf s i"
  by (simp_all add: setMaxPositionSize_def setMaxDailyLoss_def statusOf_def)

lemma step_status_change:
  assumes "statusOf (step V c s) i \<noteq> statusOf s i"
  shows "(c = CancelOrder i \<and> statusOf (step V c s) i = Some CANCELLED) \<or>
         (\<exists>n. c = ModifyOrder i n \<and> statusOf (step V c s) i = Some (status n)) \<or>
         (\<exists>st. c = UpdateOrderStatus i st \<and> statusOf (step V c s) i = Some st) \<or>
         (isPlacement c \<and> statusOf (step V c s) i = Some PENDING)"
proof (cases "isPlacement c")
  case True
  then show ?thesis using placement_status [OF True assms] by simp
next
  case False
  then show ?thesis using assms
    by (cases c) (auto simp: cancel_status modify_status update_status split: if_splits)
qed

text \<open>
  Claim C4, as stated, fails. On the connected client of the repository: a placed order
  is stored as pending and \<^verbatim>\<open>cancelOrder\<close> takes it from pending to cancelled; a
  successful \<^verbatim>\<open>modifyOrder\<close> with a new limit order (whose status is the pending of
  \<^verbatim>\<open>Order()\<close>) takes the cancelled order back to pending; and an order that status
  updates have taken to filled is taken to cancelled by \<^verbatim>\<open>cancelOrder\<close>. None of the
  three is a transition that the specification allows.
\<close>

theorem C4_status_machine_counterexample:
  "statusOf (run Impl_client [PlaceLimitOrder ''X'' BUY 10 50 7] connectedManager) 1001
     = Some PENDING \<and>
   statusOf (run Impl_client [PlaceLimitOrder ''X'' BUY 10 50 7, CancelOrder 1001]
               connectedManager) 1001 = Some CANCELLED \<and>
   \<not> specTransition PENDING CANCELLED \<and>
   fst (modifyOrder Impl_client 1001 (limitOrder ''X'' BUY 10 55 9)
          (run Impl_client [PlaceLimitOrder ''X'' BUY 10 50 7, CancelOrder 1001]
             connectedManager)) \<and>
   statusOf (run Impl_client
               [PlaceLimitOrder ''X'' BUY 10 50 7, CancelOrder 1001,
                ModifyOrder 1001 (limitOrder ''X'' BUY 10 55 9)] connectedManager) 1001
     = Some PENDING \<and>
   \<not> specTransition CANCELLED PENDING \<and>
   statusOf (run Impl_client
               [PlaceLimitOrder ''X'' BUY 10 50 7, UpdateOrderStatus 1001 SUBMITTED,
                UpdateOrderStatus 1001 FILLED] connectedManager) 1001 = Some FILLED \<and>
   statusOf (run Impl_client
               [PlaceLimitOrder ''X'' BUY 10 50 7, UpdateOrderStatus 1001 SUBMITTED,
                UpdateOrderStatus 1001 FILLED, CancelOrder 1001] connectedManager) 1001
     = Some CANCELLED \<and>
   \<not> specTransition FILLED CANCELLED"
  by (simp add: connectedManager_def placeLimitOrder_def submit_def
        Let_def validateOrder_def checkRiskLimits_def OrderManager_ctor_def Impl_client_def
        Impl_placeOrder_def Impl_connect_def Impl_ctor_def statusOf_def cancelOrder_def
        modifyOrder_def updateOrderStatus_def Impl_cancelOrder_def Impl_modifyOrder_def emit_def
        limitOrder_def Order_ctor_def)

text \<open>
  Claim C4, amended. In every state of the order book (so in every reachable one), a
  call changes the status stored under an id only in one of four ways: \<^verbatim>\<open>cancelOrder\<close>
  of that id sets it to cancelled; \<^verbatim>\<open>modifyOrder\<close> of that id sets it to the status
  that \<^verbatim>\<open>newOrder\<close> carries; \<^verbatim>\<open>updateOrderStatus\<close> of that id sets it to the status
  given; a placement stores a pending order under the id that the client returned. The
  first three happen whatever the status was before: \<^verbatim>\<open>cancelOrder\<close> whenever the
  client confirms, \<^verbatim>\<open>modifyOrder\<close> whenever the new order is valid and the client
  confirms, \<^verbatim>\<open>updateOrderStatus\<close> always. No transition depends on the current status,
  and a filled order is not exempt.
\<close>

theorem C4_status_changes:
  "(statusOf (step V c s) i \<noteq> statusOf s i \<longrightarrow>
      (c = CancelOrder i \<and> statusOf (step V c s) i = Some CANCELLED) \<or>
      (\<exists>n. c = ModifyOrder i n \<and> statusOf (step V c s) i = Some (status n)) \<or>
      (\<exists>st. c = UpdateOrderStatus i st \<and> statusOf (step V c s) i = Some st) \<or>
      (isPlacement c \<and> statusOf (step V c s) i = Some PENDING)) \<and>
   (orders s i \<noteq> None \<and> fst (c_cancelOrder V i (client s)) \<longrightarrow>
      statusOf (step V (CancelOrder i) s) i = Some CANCELLED) \<and>
   (orders s i \<noteq> None \<and> validateOrder s n \<and> fst (c_modifyOrder V i n (client s)) \<longrightarrow>
      statusOf (step V (ModifyOrder i n) s) i = Some (status n)) \<and>
   (orders s i \<noteq> None \<longrightarrow> statusOf (step V (UpdateOrderStatus i st) s) i = Some st)"
  using step_status_change [of V c s i]
  by (simp add: cancel_status modify_status update_status)

text \<open>
  The witness: from the pending order 1001, \<^verbatim>\<open>cancelOrder\<close> gives cancelled,
  \<^verbatim>\<open>modifyOrder\<close> with an order marked filled gives filled, and
  \<^verbatim>\<open>updateOrderStatus\<close> with rejected gives rejected.
\<close>

theorem C4_status_changes_witness:
  "statusOf oneOrderManager 1001 = Some PENDING \<and>
   statusOf (step Impl_client (CancelOrder 1001) oneOrderManager) 1001 = Some CANCELLED \<and>
   statusOf (step Impl_client
               (ModifyOrder 1001 ((limitOrder ''X'' BUY 10 55 9)\<lparr>status := FILLED\<rparr>))
               oneOrderManager) 1001 = Some FILLED \<and>
   statusOf (step Impl_client (UpdateOrderStatus 1001 REJECTED) oneOrderManager) 1001
     = Some REJECTED"
  using C4_status_changes [where V = Impl_client and s = oneOrderManager and i = 1001
          and c = "CancelOrder 1001" and st = REJECTED
          and n = "(limitOrder ''X'' BUY 10 55 9)\<lparr>status := FILLED\<rparr>"]
  by (simp add: oneOrderManager_simps statusOf_def validateOrder_def checkRiskLimits_def
        Impl_client_def Impl_cancelOrder_def Impl_modifyOrder_def limitOrder_def Order_ctor_def)

section \<open>Properties of the locking\<close>

lemma newEvents_emit [simp]: "newEvents s (emit es s) = es"
  by (simp add: newEvents_def)

lemma events_client_update [simp]: "events (s\<lparr>client := c\<rparr>) = events s"
  by simp

lemma submit_events:
  "newEvents s (snd (submit V order s)) =
     (if 0 < fst (c_placeOrder V order (client s)) then [ClientCall, Acquire, BookAccess, Release]
      else [ClientCall])"
  by (cases "c_placeOrder V order (client s)") (simp add: submit_def Let_def newEvents_def)

lemma newEvents_same [simp]: "newEvents s s = []"
  by (simp add: newEvents_def)

lemma place_events:
  "newEvents s (snd (placeMarketOrder V symb sd qty now s)) \<in>
     {[], [ClientCall], [ClientCall, Acquire, BookAccess, Release]}"
  "newEvents s (snd (placeLimitOrder V symb sd qty prc now s)) \<in>
     {[], [ClientCall], [ClientCall, Acquire, BookAccess, Release]}"
  "newEvents s (snd (placeStopOrder V symb sd qty stp now s)) \<in>
     {[], [ClientCall], [ClientCall, Acquire, BookAccess, Release]}"
  "newEvents s (snd (placeStopLimitOrder V symb sd qty prc stp now s)) \<in>
     {[], [ClientCall], [ClientCall, Acquire, BookAccess, Release]}"
  by (simp_all add: placeMarketOrder_def placeLimitOrder_def placeStopOrder_def
        placeStopLimitOrder_def Let_def submit_events)

lemma cancel_events:
  "newEvents s (snd (cancelOrder V oid s)) =
     (if orders s oid = None then [Acquire, BookAccess, Release]
      else if fst (c_cancelOrder V oid (client s))
           then [Acquire, BookAccess, ClientCall, BookAccess, Release]
           else [Acquire, BookAccess, ClientCall, Release])"
  by (cases "c_cancelOrder V oid (client s)")
     (auto simp: cancelOrder_def Let_def newEvents_def emit_def split: option.splits)

lemma modify_events:
  "newEvents s (snd (modifyOrder V oid n s)) =
     (if orders s oid = None \<or> \<not> validateOrder s n then [Acquire, BookAccess, Release]
      else if fst (c_modifyOrder V oid n (client s))
           then [Acquire, BookAccess, ClientCall, BookAccess, Release]
           else [Acquire, BookAccess, ClientCall, Release])"
  by (cases "c_modifyOrder V oid n (client s)")
     (auto simp: modifyOrder_def Let_def newEvents_def split: option.splits)

lemma update_events:
  "newEvents s (updateOrderStatus oid st s) =
     (if orders s oid = None then [Acquire, BookAccess, Release]
      else [Acquire, BookAccess, BookAccess, Release])"
  by (auto simp: updateOrderStatus_def Let_def newEvents_def emit_def split: option.splits)

lemma query_events:
  "newEvents s (snd (getOrder oid s)) = [Acquire, BookAccess, Release]"
  "newEvents s (snd (getAllOrders s)) = [Acquire, BookAccess, Release]"
  "newEvents s (snd (getOrdersBySymbol symb s)) = [Acquire, BookAccess, Release]"
  "newEvents s (snd (getOrdersByStatus st s)) = [Acquire, BookAccess, Release]"
  by (simp_all add: getOrder_def getAllOrders_def getOrdersBySymbol_def getOrdersByStatus_def)

lemma place_discipline:
  assumes "es \<in> {[], [ClientCall], [ClientCall, Acquire, BookAccess, Release]}"
  shows "bookUnderLock False es \<and> noCallUnderLock False es"
  using assms by auto


lemma position_events:
  assumes "\<not> positionsMutex pm"
  shows "map_option (newPEvents pm) (updatePosition p pm) = Some [Acquire, BookAccess, Release]"
    and "map_option (newPEvents pm \<circ> snd) (getPosition symb pm) = Some [Acquire, BookAccess, Release]"
    and "map_option (newPEvents pm \<circ> snd) (getAllPositions pm) = Some [Acquire, BookAccess, Release]"
    and "map_option (newPEvents pm \<circ> snd) (getTotalPortfolioValue pm) = Some [Acquire, BookAccess, Release]"
    and "map_option (newPEvents pm \<circ> snd) (getTotalUnrealizedPnL pm) = Some [Acquire, BookAccess, Release]"
    and "map_option (newPEvents pm \<circ> snd) (getTotalRealizedPnL pm) = Some [Acquire, BookAccess, Release]"
  using assms
  by (simp_all add: updatePosition_def getPosition_def getAllPositions_def
        getTotalPortfolioValue_def getTotalUnrealizedPnL_def getTotalRealizedPnL_def
        lockPositions_def unlockPositions_def touchPositions_def newPEvents_def)

text \<open>
  \<^verbatim>\<open>getAssetAllocation\<close> does not return: it holds the lock when
  \<^verbatim>\<open>getTotalPortfolioValue\<close> tries to take it. (\<^verbatim>\<open>needsRebalancing\<close> and
  \<^verbatim>\<open>generateRebalancingOrders\<close> start with a call of \<^verbatim>\<open>getAssetAllocation\<close>.)
\<close>

lemma getAssetAllocation_never_returns: "getAssetAllocation pm = None"
  by (simp add: getAssetAllocation_def getTotalPortfolioValue_def lockPositions_def)

text \<open>
  Claim C9, as stated, fails. \<^verbatim>\<open>cancelOrder\<close> and \<^verbatim>\<open>modifyOrder\<close> construct their
  \<^verbatim>\<open>lock_guard\<close> in their first statement and call the client inside its scope: for
  the stored order 1001 each of them acquires the lock, looks the id up, calls the
  client, writes the book and releases the lock.
\<close>

theorem C9_client_call_under_lock_counterexample:
  "newEvents oneOrderManager (snd (cancelOrder Impl_client 1001 oneOrderManager)) =
     [Acquire, BookAccess, ClientCall, BookAccess, Release] \<and>
   \<not> noCallUnderLock False
       (newEvents oneOrderManager (snd (cancelOrder Impl_client 1001 oneOrderManager))) \<and>
   newEvents oneOrderManager
     (snd (modifyOrder Impl_client 1001 (limitOrder ''X'' BUY 10 55 9) oneOrderManager)) =
     [Acquire, BookAccess, ClientCall, BookAccess, Release] \<and>
   \<not> noCallUnderLock False
       (newEvents oneOrderManager
          (snd (modifyOrder Impl_client 1001 (limitOrder ''X'' BUY 10 55 9) oneOrderManager)))"
  by (simp add: cancel_events modify_events oneOrderManager_simps Impl_client_def
        Impl_cancelOrder_def Impl_modifyOrder_def validateOrder_def checkRiskLimits_def
        limitOrder_def Order_ctor_def)

text \<open>
  Claim C9, amended, about the order of events within one call. Every operation of the
  order manager on its book (the four placements, \<^verbatim>\<open>cancelOrder\<close>, \<^verbatim>\<open>modifyOrder\<close>,
  \<^verbatim>\<open>updateOrderStatus\<close>, \<^verbatim>\<open>getOrder\<close> and the three scans) accesses the book only
  while it holds \<^verbatim>\<open>ordersMutex_\<close>, which it acquires free and has released at its end.
  The position-book operations \<^verbatim>\<open>updatePosition\<close>, \<^verbatim>\<open>getPosition\<close>,
  \<^verbatim>\<open>getAllPositions\<close>, \<^verbatim>\<open>getTotalPortfolioValue\<close>, \<^verbatim>\<open>getTotalUnrealizedPnL\<close> and
  \<^verbatim>\<open>getTotalRealizedPnL\<close> of the portfolio manager, called with \<^verbatim>\<open>positionsMutex_\<close>
  free, lock it, access the book and unlock it, with no call of the client. The four
  placements call the client before they take the lock, and so do not call it while
  holding the lock. \<^verbatim>\<open>cancelOrder\<close>, for an id in the book, and \<^verbatim>\<open>modifyOrder\<close>, for an
  id in the book and a valid \<^verbatim>\<open>newOrder\<close>, call the client while holding the lock.
\<close>

theorem C9_lock_discipline:
  "bookUnderLock False (newEvents s (snd (placeMarketOrder V symb sd qty now s))) \<and>
   noCallUnderLock False (newEvents s (snd (placeMarketOrder V symb sd qty now s))) \<and>
   bookUnderLock False (newEvents s (snd (placeLimitOrder V symb sd qty prc now s))) \<and>
   noCallUnderLock False (newEvents s (snd (placeLimitOrder V symb sd qty prc now s))) \<and>
   bookUnderLock False (newEvents s (snd (placeStopOrder V symb sd qty stp now s))) \<and>
   noCallUnderLock False (newEvents s (snd (placeStopOrder V symb sd qty stp now s))) \<and>
   bookUnderLock False (newEvents s (snd (placeStopLimitOrder V symb sd qty prc stp now s))) \<and>
   noCallUnderLock False (newEvents s (snd (placeStopLimitOrder V symb sd qty prc stp now s))) \<and>
   bookUnderLock False (newEvents s (snd (cancelOrder V oid s))) \<and>
   (orders s oid \<noteq> None \<longrightarrow>
      \<not> noCallUnderLock False (newEvents s (snd (cancelOrder V oid s)))) \<and>
   bookUnderLock False (newEvents s (snd (modifyOrder V oid newOrder s))) \<and>
   (orders s oid \<noteq> None \<and> validateOrder s newOrder \<longrightarrow>
      \<not> noCallUnderLock False (newEvents s (snd (modifyOrder V oid newOrder s)))) \<and>
   bookUnderLock False (newEvents s (updateOrderStatus oid st s)) \<and>
   noCallUnderLock False (newEvents s (updateOrderStatus oid st s)) \<and>
   bookUnderLock False (newEvents s (snd (getOrder oid s))) \<and>
   noCallUnderLock False (newEvents s (snd (getOrder oid s))) \<and>
   bookUnderLock False (newEvents s (snd (getAllOrders s))) \<and>
   noCallUnderLock False (newEvents s (snd (getAllOrders s))) \<and>
   bookUnderLock False (newEvents s (snd (getOrdersBySymbol symb s))) \<and>
   noCallUnderLock False (newEvents s (snd (getOrdersBySymbol symb s))) \<and>
   bookUnderLock False (newEvents s (snd (getOrdersByStatus st s))) \<and>
   noCallUnderLock False (newEvents s (snd (getOrdersByStatus st s))) \<and>
   (\<not> positionsMutex pm \<longrightarrow>
      map_option (newPEvents pm) (updatePosition p pm) = Some [Acquire, BookAccess, Release] \<and>
      map_option (newPEvents pm \<circ> snd) (getPosition symb pm)
        = Some [Acquire, BookAccess, Release] \<and>
      map_option (newPEvents pm \<circ> snd) (getAllPositions pm)
        = Some [Acquire, BookAccess, Release] \<and>
      map_option (newPEvents pm \<circ> snd) (getTotalPortfolioValue pm)
        = Some [Acquire, BookAccess, Release] \<and>
      map_option (newPEvents pm \<circ> snd) (getTotalUnrealizedPnL pm)
        = Some [Acquire, BookAccess, Release] \<and>
      map_option (newPEvents pm \<circ> snd) (getTotalRealizedPnL pm)
        = Some [Acquire, BookAccess, Release]) \<and>
   bookUnderLock False [Acquire, BookAccess, Release] \<and>
   noCallUnderLock False [Acquire, BookAccess, Release]"
proof -
  have place:
    "bookUnderLock False (newEvents s (snd (placeMarketOrder V symb sd qty now s))) \<and>
     noCallUnderLock False (newEvents s (snd (placeMarketOrder V symb sd qty now s)))"
    "bookUnderLock False (newEvents s (snd (placeLimitOrder V symb sd qty prc now s))) \<and>
     noCallUnderLock False (newEvents s (snd (placeLimitOrder V symb sd qty prc now s)))"
    "bookUnderLock False (newEvents s (snd (placeStopOrder V symb sd qty stp now s))) \<and>
     noCallUnderLock False (newEvents s (snd (placeStopOrder V symb sd qty stp now s)))"
    "bookUnderLock False (newEvents s (snd (placeStopLimitOrder V symb sd qty prc stp now s))) \<and>
     noCallUnderLock False (newEvents s (snd (placeStopLimitOrder V symb sd qty prc stp now s)))"
    by (rule place_discipline, rule place_events)+
  have cancel:
    "bookUnderLock False (newEvents s (snd (cancelOrder V oid s)))"
    "orders s oid \<noteq> None \<longrightarrow>
       \<not> noCallUnderLock False (newEvents s (snd (cancelOrder V oid s)))"
    by (simp_all add: cancel_events)
  have modify:
    "bookUnderLock False (newEvents s (snd (modifyOrder V oid newOrder s)))"
    "orders s oid \<noteq> None \<and> validateOrder s newOrder \<longrightarrow>
       \<not> noCallUnderLock False (newEvents s (snd (modifyOrder V oid newOrder s)))"
    by (simp_all add: modify_events)
  have others:
    "bookUnderLock False (newEvents s (updateOrderStatus oid st s))"
    "noCallUnderLock False (newEvents s (updateOrderStatus oid st s))"
    by (simp_all add: update_events)
  show ?thesis
    using place cancel modify others position_events [of pm]
    by (simp add: query_events)
qed

text \<open>
  The witness: the stored order 1001, for which \<^verbatim>\<open>cancelOrder\<close> and \<^verbatim>\<open>modifyOrder\<close>
  call the client under the lock, and a new portfolio manager, whose mutex is free.
\<close>

theorem C9_lock_discipline_witness:
  "\<not> noCallUnderLock False
       (newEvents oneOrderManager (snd (cancelOrder Impl_client 1001 oneOrderManager))) \<and>
   \<not> noCallUnderLock False
       (newEvents oneOrderManager
          (snd (modifyOrder Impl_client 1001 (limitOrder ''X'' BUY 10 55 9) oneOrderManager))) \<and>
   map_option (newPEvents PortfolioManager_ctor \<circ> snd)
     (getTotalPortfolioValue PortfolioManager_ctor) = Some [Acquire, BookAccess, Release]"
  using C9_lock_discipline [where s = oneOrderManager and V = Impl_client and oid = 1001
          and newOrder = "limitOrder ''X'' BUY 10 55 9" and pm = PortfolioManager_ctor]
  by (simp add: oneOrderManager_simps validateOrder_def checkRiskLimits_def
        limitOrder_def Order_ctor_def PortfolioManager_ctor_def)


end
